theory Spec2Isabelle
  imports Main "HOL-Library.AList"
begin

section \<open>Strings\<close>

text \<open>
  JavaScript strings are modelled as \<^typ>\<open>string\<close>; every string evaluated below is
  plain ASCII, where a \<^typ>\<open>char\<close> is one UTF-16 code unit.
\<close>

definition is_digit :: "char \<Rightarrow> bool" where
  "is_digit c = (c \<in> set ''0123456789'')"

definition is_upper :: "char \<Rightarrow> bool" where
  "is_upper c = (c \<in> set ''ABCDEFGHIJKLMNOPQRSTUVWXYZ'')"

text \<open>\<^verbatim>\<open>String.prototype.toLowerCase\<close> on ASCII text.\<close>

definition to_lower_char :: "char \<Rightarrow> char" where
  "to_lower_char c = (if is_upper c then char_of (of_char c + (32::nat)) else c)"

definition toLowerCase :: "string \<Rightarrow> string" where
  "toLowerCase s = map to_lower_char s"

text \<open>\<^verbatim>\<open>s.lastIndexOf(p, 0) === 0\<close>: the string starts with \<open>p\<close>.\<close>

definition starts_with :: "string \<Rightarrow> string \<Rightarrow> bool" where
  "starts_with p s = (take (length p) s = p)"

text \<open>The same test under a regular expression's \<^verbatim>\<open>i\<close> flag (\<open>p\<close> in lower case).\<close>

definition starts_with_ci :: "string \<Rightarrow> string \<Rightarrow> bool" where
  "starts_with_ci p s = (toLowerCase (take (length p) s) = p)"

text \<open>\<^verbatim>\<open>String.prototype.endsWith\<close>.\<close>

definition endsWith :: "string \<Rightarrow> string \<Rightarrow> bool" where
  "endsWith s suf = (length suf \<le> length s \<and> drop (length s - length suf) s = suf)"

text \<open>\<^verbatim>\<open>Array.prototype.join(',')\<close> on a list of strings.\<close>

fun join_comma :: "string list \<Rightarrow> string" where
  "join_comma [] = []"
| "join_comma [x] = x"
| "join_comma (x # y # ys) = x @ '','' @ join_comma (y # ys)"

text \<open>A number inside a string concatenation: its decimal digits, with a sign if negative.\<close>

definition digit_char :: "nat \<Rightarrow> char" where
  "digit_char d = ''0123456789'' ! (d mod 10)"

function decimal_digits :: "nat \<Rightarrow> string \<Rightarrow> string" where
  "decimal_digits n acc =
     (if n < 10 then digit_char n # acc else decimal_digits (n div 10) (digit_char n # acc))"
  by pat_completeness auto
termination
  by (relation "measure fst") auto

declare decimal_digits.simps [simp del]

definition number_text :: "int \<Rightarrow> string" where
  "number_text i =
     (if 0 \<le> i then decimal_digits (nat i) [] else CHR ''-'' # decimal_digits (nat (- i)) [])"

text \<open>The number a string of decimal digits denotes (\<^verbatim>\<open>ToNumber\<close> on a port string).\<close>

definition digit_val :: "char \<Rightarrow> int" where
  "digit_val c = of_char c - 48"

definition int_of_digits :: "string \<Rightarrow> int" where
  "int_of_digits ds = foldl (\<lambda>acc c. 10 * acc + digit_val c) 0 ds"

section \<open>Parsed URLs\<close>

text \<open>
  The object \<^verbatim>\<open>url.parse\<close> returns, with the fields the proxy reads. \<open>port\<close> is
  \<open>None\<close> for JavaScript's \<^verbatim>\<open>null\<close>; the string fields are empty where Node has
  \<^verbatim>\<open>null\<close> (both are falsy, and the proxy only tests them for truthiness).
\<close>

record parsed_url =
  protocol :: string
  auth :: string
  host :: string
  port :: "string option"
  hostname :: string
  pathname :: string
  search :: string
  hash :: string
  path :: string
  href :: string

text \<open>
  Node's legacy \<^verbatim>\<open>url.parse\<close> (a library function, not part of this repository),
  modelled for the strings \<open>parseURL\<close> hands it: a scheme, \<^verbatim>\<open>//\<close>, then an
  authority and the rest. The protocol is the leading run of scheme characters before a
  colon, in lower case; the authority ends at the first \<^verbatim>\<open>/\<close>, \<^verbatim>\<open>?\<close> or
  \<^verbatim>\<open>#\<close>; what precedes its last \<^verbatim>\<open>@\<close> is the auth part; a trailing
  \<^verbatim>\<open>:digits\<close> is the port (\<^verbatim>\<open>/:[0-9]*$/\<close>); the host name is put in lower case;
  a host name in square brackets (an IPv6 address) keeps them in \<^verbatim>\<open>host\<close> and
  \<^verbatim>\<open>href\<close> and loses them in \<^verbatim>\<open>hostname\<close>, and what follows it gets a leading
  \<^verbatim>\<open>/\<close>; an empty path after a host name becomes \<^verbatim>\<open>/\<close>. Not modelled: trimming
  of white space, back slashes, the further characters Node ends a host name at (quotes,
  angle brackets, ...), what Node does with a host name that has other invalid characters
  (such as a colon outside brackets), IDNA, the length limit of 255 and percent-escaping.
\<close>

definition is_scheme_char :: "char \<Rightarrow> bool" where
  "is_scheme_char c =
     (c \<in> set ''abcdefghijklmnopqrstuvwxyz'' \<or> is_upper c \<or> is_digit c \<or> c \<in> set ''.+-'')"

definition split_last_at :: "string \<Rightarrow> string \<times> string" where
  "split_last_at a =
     (let after = rev (takeWhile (\<lambda>c. c \<noteq> CHR ''@'') (rev a)) in
      if CHR ''@'' \<in> set a then (take (length a - length after - 1) a, after) else ([], a))"

definition parseHost :: "string \<Rightarrow> string \<times> string option" where
  "parseHost h =
     (let ds = takeWhile is_digit (rev h); r = dropWhile is_digit (rev h) in
      if starts_with '':'' r
      then (rev (tl r), if ds = [] then None else Some (rev ds))
      else (h, None))"

definition url_parse :: "string \<Rightarrow> parsed_url" where
  "url_parse url =
     (let scheme = takeWhile is_scheme_char url;
          after_scheme = drop (length scheme) url;
          has_proto = (scheme \<noteq> [] \<and> starts_with '':'' after_scheme);
          proto = (if has_proto then toLowerCase scheme @ '':'' else []);
          rest0 = (if has_proto then tl after_scheme else url);
          slashes = starts_with ''//'' rest0;
          rest1 = (if slashes then drop 2 rest0 else rest0);
          authority = (if slashes then takeWhile (\<lambda>c. c \<notin> set ''/?#'') rest1 else []);
          (au, hostport) = split_last_at authority;
          (hn0, prt) = parseHost hostport;
          ipv6Hostname = (starts_with ''['' hn0 \<and> endsWith hn0 '']'');
          hn1 = toLowerCase hn0;
          hst = hn1 @ (case prt of None \<Rightarrow> [] | Some p \<Rightarrow> '':'' @ p);
          hn = (if ipv6Hostname then take (length hn1 - 2) (drop 1 hn1) else hn1);
          rest2 = (if ipv6Hostname \<and> \<not> starts_with ''/'' (drop (length authority) rest1)
                   then ''/'' @ drop (length authority) rest1
                   else drop (length authority) rest1);
          before_hash = takeWhile (\<lambda>c. c \<noteq> CHR ''#'') rest2;
          hsh = drop (length before_hash) rest2;
          pn0 = takeWhile (\<lambda>c. c \<noteq> CHR ''?'') before_hash;
          srch = drop (length pn0) before_hash;
          pn = (if (proto = ''http:'' \<or> proto = ''https:'') \<and> hn \<noteq> [] \<and> pn0 = []
                then ''/'' else pn0)
      in \<lparr> protocol = proto, auth = au, host = hst, port = prt, hostname = hn,
           pathname = pn, search = srch, hash = hsh, path = pn @ srch,
           href = proto @ (if slashes then ''//'' else []) @
                  (if au = [] then [] else au @ ''@'') @ hst @ pn @ srch @ hsh \<rparr>)"

section \<open>The URL extractor: \<^verbatim>\<open>parseURL\<close>\<close>

text \<open>
  \<^verbatim>\<open>req_url.replace(/^http(s?):\/(?!\/)/, 'http$1://')\<close>: a scheme followed by one
  slash only gets its second slash. The pattern has no \<^verbatim>\<open>i\<close> flag.
\<close>

definition fix_single_slash :: "string \<Rightarrow> string" where
  "fix_single_slash s =
     (if starts_with ''https:/'' s \<and> \<not> starts_with ''https://'' s then ''https://'' @ drop 7 s
      else if starts_with ''http:/'' s \<and> \<not> starts_with ''http://'' s then ''http://'' @ drop 6 s
      else s)"

text \<open>
  The match of
  \<^verbatim>\<open>/^(?:(https?:)?\/\/)?(([^\/?]+?)(?::(\d{0,5})(?=[\/?]|$))?)([\/?][\S\s]*|$)/i\<close>.
  Group 2 (host) is the run of characters up to the first \<^verbatim>\<open>/\<close> or \<^verbatim>\<open>?\<close>,
  which must not be empty. The lazy group 3 (hostname) grows until the port group or the
  path matches: it stops before a colon that is followed by at most five digits and then
  the end of the host, with at least one character before the colon; otherwise it is the
  whole host and group 4 (port) is undefined.
\<close>

record url_match =
  m_protocol :: "string option"
  m_host :: string
  m_hostname :: string
  m_port :: "string option"
  m_path :: string

definition is_host_char :: "char \<Rightarrow> bool" where
  "is_host_char c = (c \<noteq> CHR ''/'' \<and> c \<noteq> CHR ''?'')"

definition match_port :: "string \<Rightarrow> (string \<times> string) option" where
  "match_port h =
     (let ds = takeWhile is_digit (rev h); r = dropWhile is_digit (rev h) in
      if starts_with '':'' r \<and> 2 \<le> length r \<and> length ds \<le> 5
      then Some (rev (tl r), rev ds) else None)"

definition match_host :: "string option \<Rightarrow> string \<Rightarrow> url_match option" where
  "match_host proto r =
     (let h = takeWhile is_host_char r; p = dropWhile is_host_char r in
      if h = [] then None
      else (case match_port h of
              Some (hn, ds) \<Rightarrow>
                Some \<lparr> m_protocol = proto, m_host = h, m_hostname = hn, m_port = Some ds, m_path = p \<rparr>
            | None \<Rightarrow>
                Some \<lparr> m_protocol = proto, m_host = h, m_hostname = h, m_port = None, m_path = p \<rparr>))"

text \<open>
  The optional prefix is tried greedily and given up when no host follows it: first
  with a scheme, then \<^verbatim>\<open>//\<close> alone, then nothing.
\<close>

definition match_url :: "string \<Rightarrow> url_match option" where
  "match_url s =
     (case (if starts_with_ci ''https://'' s then match_host (Some (take 6 s)) (drop 8 s)
            else if starts_with_ci ''http://'' s then match_host (Some (take 5 s)) (drop 7 s)
            else None) of
        Some m \<Rightarrow> Some m
      | None \<Rightarrow>
          (case (if starts_with ''//'' s then match_host None (drop 2 s) else None) of
             Some m \<Rightarrow> Some m
           | None \<Rightarrow> match_host None s))"

text \<open>\<^verbatim>\<open>/^https?:/i.test(s)\<close>\<close>

definition has_scheme_ci :: "string \<Rightarrow> bool" where
  "has_scheme_ci s = (starts_with_ci ''http:'' s \<or> starts_with_ci ''https:'' s)"

definition parseURL :: "string \<Rightarrow> parsed_url option" where
  "parseURL req_url0 =
     (let req_url = fix_single_slash req_url0 in
      case match_url req_url of
        None \<Rightarrow> None
      | Some m \<Rightarrow>
          if m_protocol m = None \<and> has_scheme_ci req_url then None
          else
            (let req_url1 =
                   (if m_protocol m = None
                    then (if m_port m = Some ''443'' then ''https:'' else ''http:'') @
                         (if \<not> starts_with ''//'' req_url then ''//'' @ req_url else req_url)
                    else req_url);
                 parsed = url_parse req_url1
             in if hostname parsed = [] then None else Some parsed))"

section \<open>Header sets\<close>

text \<open>
  A header object is an association list in insertion order: assigning to a present key
  replaces its value in place, assigning to a new key appends it
  (\<^const>\<open>AList.update\<close>), and \<^verbatim>\<open>delete\<close> removes the key
  (\<^const>\<open>AList.delete\<close>). A response header value is a string, a number (the
  configured max-age) or a list of strings (Node's \<^verbatim>\<open>set-cookie\<close>).
\<close>

datatype header_value = Str string | Num int | Multi "string list"

type_synonym response_headers = "(string \<times> header_value) list"

type_synonym request_headers = "(string \<times> string) list"

text \<open>
  \<^verbatim>\<open>Object.keys\<close>: the keys that are array indices (canonical decimal numerals
  below \<open>2^32 - 1\<close>) in ascending order, then the other keys in insertion order.
\<close>

definition is_array_index :: "string \<Rightarrow> bool" where
  "is_array_index k =
     (k \<noteq> [] \<and> list_all is_digit k \<and> (k = ''0'' \<or> hd k \<noteq> CHR ''0'') \<and>
      int_of_digits k < 4294967295)"

definition ordered_keys :: "string list \<Rightarrow> string list" where
  "ordered_keys ks =
     sort_key int_of_digits (filter is_array_index ks) @ filter (\<lambda>k. \<not> is_array_index k) ks"

definition object_keys :: "(string \<times> 'v) list \<Rightarrow> string list" where
  "object_keys h = ordered_keys (map fst h)"

text \<open>
  \<^verbatim>\<open>Object.keys(src).forEach(function(k) { dst[k] = src[k]; })\<close>: every entry of one
  object is assigned to another.
\<close>

definition assign_all :: "(string \<times> 'v) list \<Rightarrow> (string \<times> 'v) list \<Rightarrow> (string \<times> 'v) list" where
  "assign_all src dst =
     foldl (\<lambda>h k. case map_of src k of None \<Rightarrow> h | Some v \<Rightarrow> AList.update k v h) dst
       (object_keys src)"

text \<open>A request header that is present and not the empty string (a truthy value).\<close>

definition truthy_header :: "request_headers \<Rightarrow> string \<Rightarrow> string option" where
  "truthy_header hs k =
     (case map_of hs k of None \<Rightarrow> None | Some v \<Rightarrow> if v = [] then None else Some v)"

section \<open>Requests and their proxy state\<close>

text \<open>
  \<^verbatim>\<open>req.corsAnywhereRequestState\<close>. The handler creates it with the first four
  fields; \<open>location\<close> and \<open>proxyBaseUrl\<close> are set on admission and
  \<open>redirectCount\<close> (the source's \<^verbatim>\<open>redirectCount_\<close>) by the first followed
  redirect; \<open>None\<close> is \<^verbatim>\<open>undefined\<close>. \<open>getProxyForUrl\<close> returns the empty
  string for "no proxy"; \<open>dnsLookup\<close> returns the error or the address its callback
  receives.
\<close>

record request_state =
  getProxyForUrl :: "string \<Rightarrow> string"
  maxRedirects :: int
  corsMaxAge :: int
  dnsLookup :: "(string \<Rightarrow> string + string) option"
  location :: "parsed_url option"
  proxyBaseUrl :: "string option"
  redirectCount :: "int option"

text \<open>
  The incoming request: \<^verbatim>\<open>req.method\<close>, \<^verbatim>\<open>req.url\<close>,
  \<^verbatim>\<open>req.headers\<close> (Node delivers the names in lower case),
  \<^verbatim>\<open>req.connection.encrypted\<close> and the proxy state.
\<close>

record request =
  req_method :: string
  url :: string
  headers :: request_headers
  encrypted :: bool
  corsAnywhereRequestState :: request_state

section \<open>The CORS header synthesizer: \<^verbatim>\<open>withCORS\<close>\<close>

text \<open>
  The function mutates both the header object and \<^verbatim>\<open>request.headers\<close>; the model
  returns both.
\<close>

definition withCORS :: "response_headers \<Rightarrow> request \<Rightarrow> response_headers \<times> request" where
  "withCORS headers0 request =
     (let h1 = AList.update ''access-control-allow-origin'' (Str ''*'') headers0;
          max_age = corsMaxAge (corsAnywhereRequestState request);
          h2 = (if req_method request = ''OPTIONS'' \<and> max_age \<noteq> 0
                then AList.update ''access-control-max-age'' (Num max_age) h1 else h1);
          rh0 = headers request;
          h3 = (case truthy_header rh0 ''access-control-request-method'' of
                  Some v \<Rightarrow> AList.update ''access-control-allow-methods'' (Str v) h2
                | None \<Rightarrow> h2);
          rh1 = (case truthy_header rh0 ''access-control-request-method'' of
                  Some v \<Rightarrow> AList.delete ''access-control-request-method'' rh0
                | None \<Rightarrow> rh0);
          h4 = (case truthy_header rh1 ''access-control-request-headers'' of
                  Some v \<Rightarrow> AList.update ''access-control-allow-headers'' (Str v) h3
                | None \<Rightarrow> h3);
          rh2 = (case truthy_header rh1 ''access-control-request-headers'' of
                  Some v \<Rightarrow> AList.delete ''access-control-request-headers'' rh1
                | None \<Rightarrow> rh1);
          h5 = AList.update ''access-control-expose-headers''
                 (Str (join_comma (object_keys h4))) h4;
          h6 = AList.update ''access-control-allow-credentials'' (Str ''true'') h5
      in (h6, request\<lparr>headers := rh2\<rparr>))"

section \<open>The hostname policy checker: \<^verbatim>\<open>isValidHostName\<close>\<close>

text \<open>
  The pattern of \<^verbatim>\<open>./regexp-top-level-domain\<close> is not among the sources, and
  \<^verbatim>\<open>net.isIPv4\<close>, \<^verbatim>\<open>net.isIPv6\<close> and \<^verbatim>\<open>url.resolve\<close> are Node's: the
  model takes them as parameters.
\<close>

record node_env =
  regexp_tld :: "string \<Rightarrow> bool"
  net_isIPv4 :: "string \<Rightarrow> bool"
  net_isIPv6 :: "string \<Rightarrow> bool"
  url_resolve :: "string \<Rightarrow> string \<Rightarrow> string"

definition isValidHostName :: "node_env \<Rightarrow> string \<Rightarrow> bool" where
  "isValidHostName env hn = (regexp_tld env hn \<or> net_isIPv4 env hn \<or> net_isIPv6 env hn)"

section \<open>The request handler: \<^verbatim>\<open>getHandler\<close>\<close>

text \<open>
  The option \<^verbatim>\<open>requireHeader\<close> as the caller gives it: nothing (or another falsy or
  non-array value), one name, or an array of names.
\<close>

datatype require_header = NoHeader | HeaderName string | HeaderNames "string list"

text \<open>
  The handler's settings (\<^verbatim>\<open>corsAnywhere\<close>). \<open>handleInitialRequest\<close> and
  \<open>checkRateLimit\<close> are \<open>None\<close> for \<^verbatim>\<open>null\<close>; the rate-limit checker returns the
  empty string for "no violation". The four settings that are copied into the request
  state carry the prefix \<open>cfg\<close>.
\<close>

record cors_anywhere =
  handleInitialRequest :: "(request \<Rightarrow> parsed_url option \<Rightarrow> bool) option"
  cfg_getProxyForUrl :: "string \<Rightarrow> string"
  cfg_maxRedirects :: int
  targetBlacklist :: "string list"
  targetWhitelist :: "string list"
  originBlacklist :: "string list"
  originWhitelist :: "string list"
  checkRateLimit :: "(string \<Rightarrow> string) option"
  redirectSameOrigin :: bool
  requireHeader :: require_header
  removeHeaders :: "string list"
  setHeaders :: request_headers
  cfg_corsMaxAge :: int
  helpFile :: string
  cfg_dnsLookup :: "(string \<Rightarrow> string + string) option"

text \<open>
  The defaults of \<^verbatim>\<open>getHandler\<close>; \<open>proxy_from_env\<close> stands for
  \<^verbatim>\<open>require('proxy-from-env').getProxyForUrl\<close> and \<open>dirname\<close> for
  \<^verbatim>\<open>__dirname\<close>.
\<close>

definition default_options :: "(string \<Rightarrow> string) \<Rightarrow> string \<Rightarrow> cors_anywhere" where
  "default_options proxy_from_env dirname =
     \<lparr> handleInitialRequest = None, cfg_getProxyForUrl = proxy_from_env, cfg_maxRedirects = 5,
       targetBlacklist = [], targetWhitelist = [], originBlacklist = [], originWhitelist = [],
       checkRateLimit = None, redirectSameOrigin = False, requireHeader = NoHeader,
       removeHeaders = [], setHeaders = [], cfg_corsMaxAge = 0,
       helpFile = dirname @ ''/help.txt'', cfg_dnsLookup = None \<rparr>"

text \<open>
  \<^verbatim>\<open>requireHeader\<close> becomes a list of lower-case names or \<^verbatim>\<open>null\<close>; an empty
  name is falsy and an empty array is replaced by \<^verbatim>\<open>null\<close>.
\<close>

definition normalize_requireHeader :: "require_header \<Rightarrow> string list option" where
  "normalize_requireHeader r =
     (case r of
        NoHeader \<Rightarrow> None
      | HeaderName n \<Rightarrow> if n = [] then None else Some [toLowerCase n]
      | HeaderNames ns \<Rightarrow> if ns = [] then None else Some (map toLowerCase ns))"

definition hasRequiredHeaders :: "string list option \<Rightarrow> request_headers \<Rightarrow> bool" where
  "hasRequiredHeaders required hs =
     (case required of
        None \<Rightarrow> True
      | Some names \<Rightarrow> list_ex (\<lambda>headerName. map_of hs headerName \<noteq> None) names)"

text \<open>\<^verbatim>\<open>/^\/https?:/.test(req.url)\<close>\<close>

definition has_explicit_scheme :: "string \<Rightarrow> bool" where
  "has_explicit_scheme u = (starts_with ''/http:'' u \<or> starts_with ''/https:'' u)"

text \<open>\<^verbatim>\<open>/^\/https?:\/[^/]/i.test(req.url)\<close>\<close>

definition missing_slash :: "string \<Rightarrow> bool" where
  "missing_slash u =
     ((starts_with_ci ''/http:/'' u \<and> (case drop 7 u of [] \<Rightarrow> False | c # _ \<Rightarrow> c \<noteq> CHR ''/'')) \<or>
      (starts_with_ci ''/https:/'' u \<and> (case drop 8 u of [] \<Rightarrow> False | c # _ \<Rightarrow> c \<noteq> CHR ''/'')))"

text \<open>\<^verbatim>\<open>location.port > 65535\<close>: \<^verbatim>\<open>null\<close> counts as 0.\<close>

definition port_number :: "string option \<Rightarrow> int" where
  "port_number p = (case p of None \<Rightarrow> 0 | Some ds \<Rightarrow> int_of_digits ds)"

definition port_text :: "string option \<Rightarrow> string" where
  "port_text p = (case p of None \<Rightarrow> ''null'' | Some ds \<Rightarrow> ds)"

text \<open>\<^verbatim>\<open>/^\s*https/.test(v)\<close> on ASCII text; an absent header does not match.\<close>

definition is_space :: "char \<Rightarrow> bool" where
  "is_space c = (of_char c \<in> {9, 10, 11, 12, 13, 32 :: nat})"

definition forwarded_https :: "request_headers \<Rightarrow> bool" where
  "forwarded_https hs =
     (case map_of hs ''x-forwarded-proto'' of
        None \<Rightarrow> False
      | Some v \<Rightarrow> starts_with ''https'' (dropWhile is_space v))"

text \<open>\<^verbatim>\<open>req.headers.origin || ''\<close>\<close>

definition request_origin :: "request_headers \<Rightarrow> string" where
  "request_origin hs = (case map_of hs ''origin'' of None \<Rightarrow> [] | Some v \<Rightarrow> v)"

text \<open>A header value inside a string concatenation; an absent one reads \<^verbatim>\<open>undefined\<close>.\<close>

definition header_text :: "request_headers \<Rightarrow> string \<Rightarrow> string" where
  "header_text hs k = (case map_of hs k of None \<Rightarrow> ''undefined'' | Some v \<Rightarrow> v)"

text \<open>
  What the handler does with a request: it writes a reply (status, reason phrase,
  headers, body), shows the help file, leaves the request to the hook (recorded with the
  target the hook was called with), or admits it and calls \<open>proxyRequest\<close> on the
  prepared request.
\<close>

datatype handled =
    Reply nat string response_headers string
  | ShowUsage string response_headers
  | HandledByHook "parsed_url option"
  | Forward request

text \<open>
  \<^verbatim>\<open>corsAnywhere.handleInitialRequest && corsAnywhere.handleInitialRequest(req, res, location)\<close>
  and \<^verbatim>\<open>corsAnywhere.checkRateLimit && corsAnywhere.checkRateLimit(origin)\<close>: a hook
  that is not configured is not called and the expression is falsy.
\<close>

definition call_hook ::
  "(request \<Rightarrow> parsed_url option \<Rightarrow> bool) option \<Rightarrow> request \<Rightarrow> parsed_url option \<Rightarrow> bool" where
  "call_hook h req loc_opt = (case h of None \<Rightarrow> False | Some hook \<Rightarrow> hook req loc_opt)"

definition call_checkRateLimit :: "(string \<Rightarrow> string) option \<Rightarrow> string \<Rightarrow> string" where
  "call_checkRateLimit h origin = (case h of None \<Rightarrow> [] | Some check \<Rightarrow> check origin)"

text \<open>The state object the handler attaches to every request.\<close>

definition new_request_state :: "cors_anywhere \<Rightarrow> request_state" where
  "new_request_state corsAnywhere =
     \<lparr> getProxyForUrl = cfg_getProxyForUrl corsAnywhere,
       maxRedirects = cfg_maxRedirects corsAnywhere,
       corsMaxAge = cfg_corsMaxAge corsAnywhere,
       dnsLookup = cfg_dnsLookup corsAnywhere,
       location = None, proxyBaseUrl = None, redirectCount = None \<rparr>"

text \<open>
  The handler's body is modelled in three consecutive parts: \<open>getHandler\<close> (lines 318
  to 381 of the source: preflight, target extraction, hook, probe path, port, host name
  and required headers), \<open>handler_policy\<close> (lines 383 to 436: origin lists, target lists,
  rate limit, same-origin redirect) and \<open>handler_forward\<close> (lines 438 to 452: the
  admission). Each part ends by running the next, as the source falls through.
\<close>

definition handler_forward :: "cors_anywhere \<Rightarrow> request \<Rightarrow> parsed_url \<Rightarrow> handled" where
  "handler_forward corsAnywhere req loc =
     (let proxy_base =
            (if encrypted req \<or> forwarded_https (headers req) then ''https://'' else ''http://'') @
            header_text (headers req) ''host'';
          hs1 = foldl (\<lambda>hs header. AList.delete header hs) (headers req)
                  (removeHeaders corsAnywhere);
          hs2 = assign_all (setHeaders corsAnywhere) hs1
      in Forward
           (req\<lparr>headers := hs2,
                corsAnywhereRequestState :=
                  (corsAnywhereRequestState req)
                    \<lparr>location := Some loc, proxyBaseUrl := Some proxy_base\<rparr>\<rparr>))"

definition handler_policy ::
  "cors_anywhere \<Rightarrow> response_headers \<Rightarrow> request \<Rightarrow> parsed_url \<Rightarrow> handled" where
  "handler_policy corsAnywhere cors_headers req loc =
     (let origin = request_origin (headers req) in
      if origin \<in> set (originBlacklist corsAnywhere)
      then Reply 403 ''Forbidden'' cors_headers
             (''The origin \"'' @ origin @ ''\" was blacklisted by the operator of this proxy.'')
      else if originWhitelist corsAnywhere \<noteq> [] \<and> origin \<notin> set (originWhitelist corsAnywhere)
      then Reply 403 ''Forbidden'' cors_headers
             (''The origin \"'' @ origin @ ''\" was not whitelisted by the operator of this proxy.'')
      else if targetBlacklist corsAnywhere \<noteq> [] \<and>
              \<not> list_ex (\<lambda>domain0.
                   let domain = toLowerCase domain0; hn = toLowerCase (hostname loc)
                   in hn \<noteq> domain \<or> endsWith hn (''.'' @ domain))
                 (targetBlacklist corsAnywhere)
      then Reply 403 ''Forbidden'' cors_headers
             (''The target URL hostname \"'' @ hostname loc @ ''\" is not allowed by this proxy.'')
      else if targetWhitelist corsAnywhere \<noteq> [] \<and>
              \<not> list_ex (\<lambda>domain0.
                   let domain = toLowerCase domain0; hn = toLowerCase (hostname loc)
                   in hn = domain \<or> endsWith hn (''.'' @ domain))
                 (targetWhitelist corsAnywhere)
      then Reply 403 ''Forbidden'' cors_headers
             (''The target URL hostname \"'' @ hostname loc @ ''\" is not allowed by this proxy.'')
      else
        (let rateLimitMessage = call_checkRateLimit (checkRateLimit corsAnywhere) origin in
         if rateLimitMessage \<noteq> []
         then Reply 429 ''Too Many Requests'' cors_headers
                (''The origin \"'' @ origin @ ''\" has sent too many requests.'' @
                 [CHR 0x0A] @ rateLimitMessage)
         else if redirectSameOrigin corsAnywhere \<and> origin \<noteq> [] \<and>
                 take 1 (drop (length origin) (href loc)) = ''/'' \<and>
                 starts_with origin (href loc)
         then Reply 301 ''Please use a direct request''
                (AList.update ''location'' (Str (href loc))
                  (AList.update ''cache-control'' (Str ''private'')
                    (AList.update ''vary'' (Str ''origin'') cors_headers))) []
         else handler_forward corsAnywhere req loc))"

definition getHandler :: "node_env \<Rightarrow> cors_anywhere \<Rightarrow> request \<Rightarrow> handled" where
  "getHandler env corsAnywhere req0 =
     (let required = normalize_requireHeader (requireHeader corsAnywhere);
          (cors_headers, req) =
            withCORS [] (req0\<lparr>corsAnywhereRequestState := new_request_state corsAnywhere\<rparr>)
      in
      if req_method req = ''OPTIONS'' then Reply 200 [] cors_headers []
      else
        (let loc_opt = parseURL (drop 1 (url req)) in
         if call_hook (handleInitialRequest corsAnywhere) req loc_opt
         then HandledByHook loc_opt
         else
           (case loc_opt of
              None \<Rightarrow>
                if missing_slash (url req)
                then Reply 400 ''Missing slash'' cors_headers
                       ''The URL is invalid: two slashes are needed after the http(s):.''
                else ShowUsage (helpFile corsAnywhere) cors_headers
            | Some loc \<Rightarrow>
                if host loc = ''iscorsneeded''
                then Reply 200 [] [(''Content-Type'', Str ''text/plain'')] ''no''
                else if port_number (port loc) > 65535
                then Reply 400 ''Invalid port'' cors_headers
                       (''Port number too large: '' @ port_text (port loc))
                else if \<not> has_explicit_scheme (url req) \<and> \<not> isValidHostName env (hostname loc)
                then Reply 404 ''Invalid host'' cors_headers (''Invalid host: '' @ hostname loc)
                else if \<not> hasRequiredHeaders required (headers req)
                then Reply 400 ''Header required'' cors_headers
                       (''Missing required request header. Must specify one of: '' @
                        join_comma (case required of None \<Rightarrow> [] | Some names \<Rightarrow> names))
                else handler_policy corsAnywhere cors_headers req loc)))"

section \<open>The response to the client\<close>

text \<open>
  The \<^verbatim>\<open>ServerResponse\<close> of the incoming request, as far as the proxy reads and
  writes it: \<^verbatim>\<open>headersSent\<close>, \<^verbatim>\<open>writableEnded\<close>, the status, the headers set
  so far and the body written. Header names are kept as the proxy writes them.
\<close>

record response =
  headersSent :: bool
  writableEnded :: bool
  statusCode :: nat
  res_headers :: response_headers
  res_body :: string

definition new_response :: response where
  "new_response =
     \<lparr> headersSent = False, writableEnded = False, statusCode = 200, res_headers = [],
       res_body = [] \<rparr>"

definition setHeader :: "string \<Rightarrow> header_value \<Rightarrow> response \<Rightarrow> response" where
  "setHeader name v res = res\<lparr>res_headers := AList.update name v (res_headers res)\<rparr>"

definition removeHeader :: "string \<Rightarrow> response \<Rightarrow> response" where
  "removeHeader name res = res\<lparr>res_headers := AList.delete name (res_headers res)\<rparr>"

definition getHeaderNames :: "response \<Rightarrow> string list" where
  "getHeaderNames res = map fst (res_headers res)"

text \<open>\<^verbatim>\<open>res.writeHead(status, headers)\<close> sets the status, merges the headers and sends the head.\<close>

definition writeHead :: "nat \<Rightarrow> response_headers \<Rightarrow> response \<Rightarrow> response" where
  "writeHead status hs res =
     res\<lparr>statusCode := status, res_headers := assign_all hs (res_headers res),
         headersSent := True\<rparr>"

text \<open>\<^verbatim>\<open>res.end(data)\<close> sends the head if it was not sent, writes the data and ends the response.\<close>

definition res_end :: "string \<Rightarrow> response \<Rightarrow> response" where
  "res_end chunk res =
     res\<lparr>headersSent := True, writableEnded := True, res_body := res_body res @ chunk\<rparr>"

section \<open>The fallback responder of \<^verbatim>\<open>createServer\<close>\<close>

text \<open>
  The listener for the proxy's \<^verbatim>\<open>error\<close> event (lines 490 to 512), which
  \<^verbatim>\<open>createServer\<close> installs when no custom listeners are configured. \<open>err\<close> is the
  error as string concatenation renders it.
\<close>

definition on_proxy_error :: "string \<Rightarrow> response \<Rightarrow> response" where
  "on_proxy_error err res =
     (if headersSent res
      then (if \<not> writableEnded res then res_end [] res else res)
      else
        (let res1 = foldl (\<lambda>r name. removeHeader name r) res (getHeaderNames res)
         in res_end (''Not found because of proxy error: '' @ err)
              (writeHead 404 [(''Access-Control-Allow-Origin'', Str ''*'')] res1)))"

section \<open>The response mediator: \<^verbatim>\<open>onProxyResponse\<close>\<close>

text \<open>
  \<^verbatim>\<open>proxyRes.headers.location\<close> as a string, empty when the header is absent (Node
  delivers \<^verbatim>\<open>Location\<close> as one string).
\<close>

definition location_header :: "response_headers \<Rightarrow> string" where
  "location_header hs = (case map_of hs ''location'' of Some (Str l) \<Rightarrow> l | _ \<Rightarrow> [])"

text \<open>\<^verbatim>\<open>!requestState.redirectCount_\<close>\<close>

definition no_redirect_yet :: "int option \<Rightarrow> bool" where
  "no_redirect_yet rc = (case rc of None \<Rightarrow> True | Some n \<Rightarrow> n = 0)"

text \<open>
  \<^verbatim>\<open>requestState.redirectCount_ + 1 || 1\<close>: \<^verbatim>\<open>undefined + 1\<close> is \<^verbatim>\<open>NaN\<close>, which
  is falsy, as is 0.
\<close>

definition next_redirect_count :: "int option \<Rightarrow> int" where
  "next_redirect_count rc = (case rc of None \<Rightarrow> 1 | Some n \<Rightarrow> if n + 1 = 0 then 1 else n + 1)"

text \<open>\<^verbatim>\<open>requestState.proxyBaseUrl + '/' + locationHeader\<close>\<close>

definition rewritten_location :: "string option \<Rightarrow> string \<Rightarrow> string" where
  "rewritten_location base locationHeader =
     (case base of None \<Rightarrow> ''undefined'' | Some b \<Rightarrow> b) @ ''/'' @ locationHeader"

text \<open>
  Lines 174 to 178: on the first response, unless the head of \<^verbatim>\<open>res\<close> has been
  sent, \<^verbatim>\<open>x-request-url\<close> is set to the target.
\<close>

definition stamp_request_url :: "request \<Rightarrow> parsed_url \<Rightarrow> response \<Rightarrow> response" where
  "stamp_request_url req loc res =
     (if \<not> headersSent res \<and> no_redirect_yet (redirectCount (corsAnywhereRequestState req))
      then setHeader ''x-request-url'' (Str (href loc)) res else res)"

text \<open>
  What the mediator decided: it re-issued the request (it called \<open>proxyRequest\<close> and
  returned \<^verbatim>\<open>false\<close>), or it returned \<^verbatim>\<open>true\<close> with the mediated
  \<^verbatim>\<open>proxyRes.headers\<close>, or it threw because the request carries no target.
\<close>

datatype mediation =
    Redirected request response
  | PassThrough response_headers request response
  | TypeError

text \<open>Lines 218 to 224: the end of \<open>onProxyResponse\<close> on every path that returns \<^verbatim>\<open>true\<close>.\<close>

definition finalize_response ::
  "response_headers \<Rightarrow> request \<Rightarrow> response \<Rightarrow> parsed_url \<Rightarrow> mediation" where
  "finalize_response hs req res loc =
     (let hs1 = AList.delete ''set-cookie'' hs;
          hs2 = AList.delete ''set-cookie2'' hs1;
          hs3 = AList.update ''x-final-url'' (Str (href loc)) hs2;
          (hs4, req1) = withCORS hs3 req
      in PassThrough hs4 req1 res)"

definition onProxyResponse ::
  "node_env \<Rightarrow> nat \<Rightarrow> response_headers \<Rightarrow> request \<Rightarrow> response \<Rightarrow> mediation" where
  "onProxyResponse env status proxyRes_headers req res =
     (let requestState = corsAnywhereRequestState req in
      case location requestState of
        None \<Rightarrow> TypeError
      | Some loc \<Rightarrow>
          (let res1 = stamp_request_url req loc res
           in
           if status = 301 \<or> status = 302 \<or> status = 303 \<or> status = 307 \<or> status = 308
           then
             (let locationHeader0 = location_header proxyRes_headers;
                  locationHeader =
                    (if locationHeader0 \<noteq> [] then url_resolve env (href loc) locationHeader0
                     else locationHeader0);
                  parsedLocation = (if locationHeader0 \<noteq> [] then parseURL locationHeader else None)
              in
              case parsedLocation of
                None \<Rightarrow> finalize_response proxyRes_headers req res1 loc
              | Some new_loc \<Rightarrow>
                  if status = 301 \<or> status = 302 \<or> status = 303
                  then
                    (let n = next_redirect_count (redirectCount requestState);
                         req1 = req\<lparr>corsAnywhereRequestState := requestState\<lparr>redirectCount := Some n\<rparr>\<rparr>
                     in
                     if n \<le> maxRedirects requestState
                     then
                       Redirected
                         (req1\<lparr>req_method := ''GET'',
                               headers := AList.delete ''content-type''
                                            (AList.update ''content-length'' ''0'' (headers req1)),
                               corsAnywhereRequestState :=
                                 (corsAnywhereRequestState req1)\<lparr>location := Some new_loc\<rparr>\<rparr>)
                         (if \<not> headersSent res1
                          then setHeader (''X-CORS-Redirect-'' @ number_text n)
                                 (Str (number_text (int status) @ '' '' @ locationHeader)) res1
                          else res1)
                     else
                       finalize_response
                         (AList.update ''location''
                            (Str (rewritten_location (proxyBaseUrl requestState) locationHeader))
                            proxyRes_headers)
                         req1 res1 loc)
                  else
                    finalize_response
                      (AList.update ''location''
                         (Str (rewritten_location (proxyBaseUrl requestState) locationHeader))
                         proxyRes_headers)
                      req res1 loc)
           else finalize_response proxyRes_headers req res1 loc))"

section \<open>The forwarding engine: \<^verbatim>\<open>proxyRequest\<close>\<close>

text \<open>
  The outbound exchange that \<^verbatim>\<open>proxy.web(req, res, proxyOptions)\<close> starts: the
  request line and headers taken from \<^verbatim>\<open>req\<close>, the \<^verbatim>\<open>host\<close> header and the
  target of \<^verbatim>\<open>proxyOptions\<close>.
\<close>

record outbound =
  out_method :: string
  out_url :: string
  out_headers :: request_headers
  out_host :: string
  out_target :: string
  out_toProxy :: bool

text \<open>
  The transport (http-proxy and the network) answers the exchange with number \<open>n\<close>
  either with the target's response, which http-proxy announces by the event
  \<^verbatim>\<open>proxyRes\<close>, or with an error, announced by the event \<^verbatim>\<open>error\<close>. The number
  lets the answers differ from one exchange to the next.
\<close>

datatype upstream_event = ProxyRes nat response_headers | ProxyError string

type_synonym transport = "nat \<Rightarrow> outbound \<Rightarrow> upstream_event"

text \<open>Lines 83 to 102: \<^verbatim>\<open>req.url\<close> becomes the path, or the whole URL behind a proxy.\<close>

definition outgoing_request :: "request \<Rightarrow> parsed_url \<Rightarrow> request" where
  "outgoing_request req loc =
     req\<lparr>url := (if getProxyForUrl (corsAnywhereRequestState req) (href loc) \<noteq> []
                 then href loc else path loc)\<rparr>"

text \<open>
  Node's \<^verbatim>\<open>url.format\<close> (a library function) of a parsed URL that has a scheme and
  \<^verbatim>\<open>//\<close> and whose \<^verbatim>\<open>host\<close> was set to \<^verbatim>\<open>null\<close>: the host name and the port
  are used, with the auth part in front; a host name that contains a colon and is not in
  square brackets (an IPv6 address) is put in brackets; without a host name there is
  neither auth nor port. Not modelled: percent-escaping of the auth part and of
  \<^verbatim>\<open>#\<close> and \<^verbatim>\<open>?\<close> in the path.
\<close>

definition url_format :: "parsed_url \<Rightarrow> string" where
  "url_format u =
     protocol u @ ''//'' @
     (if hostname u = [] then []
      else (if auth u = [] then [] else auth u @ ''@'') @
           (if CHR '':'' \<in> set (hostname u) \<and>
               \<not> (starts_with ''['' (hostname u) \<and> endsWith (hostname u) '']'')
            then ''['' @ hostname u @ '']'' else hostname u) @
           (case port u of None \<Rightarrow> [] | Some p \<Rightarrow> '':'' @ p)) @
     (if pathname u \<noteq> [] \<and> \<not> starts_with ''/'' (pathname u) then ''/'' @ pathname u
      else pathname u) @
     search u @ hash u"

text \<open>
  Lines 122 to 140: the target of the exchange, after the optional DNS lookup. The lookup
  is given the host name of the target (the location, or the proxy to go through); its
  error ends the exchange, its address replaces the host name.
\<close>

definition resolve_target :: "request \<Rightarrow> parsed_url \<Rightarrow> string + string" where
  "resolve_target req loc =
     (let proxyThroughUrl = getProxyForUrl (corsAnywhereRequestState req) (href loc);
          target = (if proxyThroughUrl \<noteq> [] then proxyThroughUrl else href loc);
          targetUrl = (if proxyThroughUrl \<noteq> [] then url_parse proxyThroughUrl else loc)
      in case dnsLookup (corsAnywhereRequestState req) of
           None \<Rightarrow> Inr target
         | Some lookup \<Rightarrow>
             (case lookup (hostname targetUrl) of
                Inl err \<Rightarrow> Inl err
              | Inr address \<Rightarrow> Inr (url_format (targetUrl\<lparr>host := [], hostname := address\<rparr>))))"

definition outbound_exchange :: "request \<Rightarrow> parsed_url \<Rightarrow> string \<Rightarrow> outbound" where
  "outbound_exchange req loc target =
     \<lparr> out_method = req_method req, out_url = url req, out_headers = headers req,
       out_host = host loc, out_target = target,
       out_toProxy = (getProxyForUrl (corsAnywhereRequestState req) (href loc) \<noteq> []) \<rparr>"

text \<open>
  How a call of \<open>proxyRequest\<close> ends: the response is left to http-proxy to pipe to the
  client (after so many exchanges, with the target's status and the mediated headers),
  the proxy's \<^verbatim>\<open>error\<close> event is emitted, or a \<^verbatim>\<open>TypeError\<close> escapes.
\<close>

datatype proxied =
    Piped nat nat response_headers request response
  | Failed nat string request response
  | Threw nat

text \<open>The redirects the request may still follow; it decreases with every followed hop.\<close>

definition hops_left :: "request \<Rightarrow> nat" where
  "hops_left req =
     nat (maxRedirects (corsAnywhereRequestState req) -
          (case redirectCount (corsAnywhereRequestState req) of None \<Rightarrow> 0 | Some n \<Rightarrow> n))"

text \<open>
  \<open>proxyRequest\<close> starts exchange number \<open>n\<close>. The listener it registers for
  \<^verbatim>\<open>proxyRes\<close> (lines 108 to 119) runs \<open>onProxyResponse\<close>; when that returns
  \<^verbatim>\<open>false\<close> (it has already called \<open>proxyRequest\<close> again) the listener ends the
  response it is given unless it has ended. http-proxy emits \<^verbatim>\<open>proxyRes\<close> with
  \<^verbatim>\<open>(proxyRes, req, res)\<close>, so that response is the client's \<^verbatim>\<open>res\<close>. The answer
  to the next exchange arrives after the listener has returned, so the next run of
  \<open>onProxyResponse\<close> sees the ended response. Removing the request's listeners and
  destroying the previous outbound request have no effect the model records.
\<close>

function proxyRequest ::
  "node_env \<Rightarrow> transport \<Rightarrow> nat \<Rightarrow> request \<Rightarrow> response \<Rightarrow> proxied" where
  "proxyRequest env transport n req res =
     (case location (corsAnywhereRequestState req) of
        None \<Rightarrow> Threw n
      | Some loc \<Rightarrow>
          (case resolve_target req loc of
             Inl err \<Rightarrow> Failed n err (outgoing_request req loc) res
           | Inr target \<Rightarrow>
               (case transport n (outbound_exchange (outgoing_request req loc) loc target) of
                  ProxyError err \<Rightarrow> Failed (Suc n) err (outgoing_request req loc) res
                | ProxyRes status hs \<Rightarrow>
                    (case onProxyResponse env status hs (outgoing_request req loc) res of
                       Redirected req' res' \<Rightarrow>
                         proxyRequest env transport (Suc n) req'
                           (if \<not> writableEnded res' then res_end [] res' else res')
                     | PassThrough hs' req' res' \<Rightarrow> Piped (Suc n) status hs' req' res'
                     | TypeError \<Rightarrow> Threw (Suc n)))))"
  by pat_completeness auto
termination
proof (relation "measure (\<lambda>(env, transport, n, req, res). hops_left req)", goal_cases)
  case 1
  show ?case by simp
next
  case (2 env transport n req res loc target status hs req' res')
  let ?st = "corsAnywhereRequestState req"
  let ?n = "next_redirect_count (redirectCount ?st)"
  from 2(4) have le: "?n \<le> maxRedirects ?st"
    and rc: "redirectCount (corsAnywhereRequestState req') = Some ?n"
    and mx: "maxRedirects (corsAnywhereRequestState req') = maxRedirects ?st"
    by (auto simp: onProxyResponse_def outgoing_request_def finalize_response_def Let_def
          split_def split: option.splits if_splits)
  have "(case redirectCount ?st of None \<Rightarrow> 0 | Some n \<Rightarrow> n) < ?n"
    by (simp add: next_redirect_count_def split: option.splits)
  with le show ?case
    by (simp add: hops_left_def rc mx)
qed

declare proxyRequest.simps [simp del]

text \<open>
  What the client has received when \<open>proxyRequest\<close> is over. http-proxy copies the
  target's status and the mediated headers to \<^verbatim>\<open>res\<close> and pipes the body, unless the
  head of \<^verbatim>\<open>res\<close> has been sent; an error goes to the fallback responder.
\<close>

definition web_outgoing :: "nat \<Rightarrow> response_headers \<Rightarrow> response \<Rightarrow> response" where
  "web_outgoing status hs res =
     (if headersSent res then res
      else res\<lparr>statusCode := status, res_headers := assign_all hs (res_headers res),
               headersSent := True\<rparr>)"

definition client_response :: "proxied \<Rightarrow> response option" where
  "client_response r =
     (case r of
        Piped n status hs req res \<Rightarrow> Some (web_outgoing status hs res)
      | Failed n err req res \<Rightarrow> Some (on_proxy_error err res)
      | Threw n \<Rightarrow> None)"

definition exchanges :: "proxied \<Rightarrow> nat" where
  "exchanges r = (case r of Piped n status hs req res \<Rightarrow> n | Failed n err req res \<Rightarrow> n | Threw n \<Rightarrow> n)"


section \<open>Names for stating the properties\<close>

text \<open>
  The header set and the request as they are after the handler's first two statements
  (the state object is attached and \<open>withCORS\<close> has run on an empty header set): the
  hook and every check see this request, and every reply of the handler carries these
  headers.
\<close>

definition cors_headers_for :: "cors_anywhere \<Rightarrow> request \<Rightarrow> response_headers" where
  "cors_headers_for c req0 =
     fst (withCORS [] (req0\<lparr>corsAnywhereRequestState := new_request_state c\<rparr>))"

definition request_seen :: "cors_anywhere \<Rightarrow> request \<Rightarrow> request" where
  "request_seen c req0 =
     snd (withCORS [] (req0\<lparr>corsAnywhereRequestState := new_request_state c\<rparr>))"

definition hook_handles :: "cors_anywhere \<Rightarrow> request \<Rightarrow> parsed_url option \<Rightarrow> bool" where
  "hook_handles c req0 loc_opt = call_hook (handleInitialRequest c) (request_seen c req0) loc_opt"

text \<open>
  The request is not a preflight, has the target \<open>loc\<close>, is not taken by the hook and
  passes the probe-path, port and host-name checks: it reaches the required-header check.
\<close>

definition passes_early_checks ::
  "node_env \<Rightarrow> cors_anywhere \<Rightarrow> request \<Rightarrow> parsed_url \<Rightarrow> bool" where
  "passes_early_checks env c req0 loc =
     (req_method req0 \<noteq> ''OPTIONS'' \<and> parseURL (drop 1 (url req0)) = Some loc \<and>
      \<not> hook_handles c req0 (Some loc) \<and>
      host loc \<noteq> ''iscorsneeded'' \<and> port_number (port loc) \<le> 65535 \<and>
      (has_explicit_scheme (url req0) \<or> isValidHostName env (hostname loc)))"

text \<open>The request also passes the required-header check: it reaches the origin checks.\<close>

definition reaches_origin_checks ::
  "node_env \<Rightarrow> cors_anywhere \<Rightarrow> request \<Rightarrow> parsed_url \<Rightarrow> bool" where
  "reaches_origin_checks env c req0 loc =
     (passes_early_checks env c req0 loc \<and>
      hasRequiredHeaders (normalize_requireHeader (requireHeader c)) (headers (request_seen c req0)))"

text \<open>The origin passes the origin blacklist and the origin whitelist.\<close>

definition origin_allowed :: "cors_anywhere \<Rightarrow> string \<Rightarrow> bool" where
  "origin_allowed c origin =
     (origin \<notin> set (originBlacklist c) \<and>
      (originWhitelist c = [] \<or> origin \<in> set (originWhitelist c)))"

text \<open>The target passes the target blacklist and the target whitelist, as the code tests them.\<close>

definition target_allowed :: "cors_anywhere \<Rightarrow> parsed_url \<Rightarrow> bool" where
  "target_allowed c loc =
     ((targetBlacklist c = [] \<or>
       list_ex (\<lambda>domain0.
            let domain = toLowerCase domain0; hn = toLowerCase (hostname loc)
            in hn \<noteq> domain \<or> endsWith hn (''.'' @ domain))
          (targetBlacklist c)) \<and>
      (targetWhitelist c = [] \<or>
       list_ex (\<lambda>domain0.
            let domain = toLowerCase domain0; hn = toLowerCase (hostname loc)
            in hn = domain \<or> endsWith hn (''.'' @ domain))
          (targetWhitelist c)))"

definition admitted :: "handled \<Rightarrow> bool" where
  "admitted h = (case h of Forward r \<Rightarrow> True | _ \<Rightarrow> False)"

text \<open>The reply the handler wrote, if it wrote one.\<close>

definition reply_of :: "handled \<Rightarrow> (nat \<times> string \<times> response_headers \<times> string) option" where
  "reply_of h =
     (case h of Reply status reason hs text \<Rightarrow> Some (status, reason, hs, text) | _ \<Rightarrow> None)"

text \<open>
  The names \<open>withCORS\<close> lists in \<^verbatim>\<open>access-control-expose-headers\<close>: those the mapping
  holds when that entry is written. Of the returned mapping these are all names but
  the entry itself and \<^verbatim>\<open>access-control-allow-credentials\<close>, unless the caller's
  mapping had them already.
\<close>

definition listed :: "response_headers \<Rightarrow> string \<Rightarrow> bool" where
  "listed headers0 k =
     (k \<in> fst ` set headers0 \<or>
      (k \<noteq> ''access-control-expose-headers'' \<and> k \<noteq> ''access-control-allow-credentials''))"

text \<open>The names \<open>withCORS\<close> may assign.\<close>

definition cors_names :: "string set" where
  "cors_names =
     {''access-control-allow-origin'', ''access-control-max-age'',
      ''access-control-allow-methods'', ''access-control-allow-headers'',
      ''access-control-expose-headers'', ''access-control-allow-credentials''}"


subsection \<open>Scenarios\<close>

text \<open>
  The inputs the concrete evaluations use: an environment whose host-name pattern
  accepts the names ending in \<^verbatim>\<open>.com\<close> (the pattern of the repository is not among
  the sources) and whose \<^verbatim>\<open>url.resolve\<close> returns the absolute URL it is given; the
  default settings with no outer proxy; and a request without TLS.
\<close>

definition scenario_env :: node_env where
  "scenario_env =
     \<lparr> regexp_tld = (\<lambda>hn. endsWith hn ''.com''), net_isIPv4 = (\<lambda>hn. False),
       net_isIPv6 = (\<lambda>hn. False), url_resolve = (\<lambda>base target. target) \<rparr>"

definition default_config :: cors_anywhere where
  "default_config = default_options (\<lambda>u. []) ''/lib''"

definition plain_request :: "string \<Rightarrow> string \<Rightarrow> request_headers \<Rightarrow> request" where
  "plain_request m u hs =
     \<lparr> req_method = m, url = u, headers = hs, encrypted = False,
       corsAnywhereRequestState = new_request_state default_config \<rparr>"


text \<open>
  The request the handler admits for \<^verbatim>\<open>GET /example.com/loop\<close> with
  \<^verbatim>\<open>Host: proxy.test\<close> under the default settings, and four targets: one that
  answers every exchange with a 302 to itself (and a cookie), one that answers with a
  307, one that answers the first exchange with a 302 to itself and the next with a 307,
  and one that answers 200 and sets cookies.
\<close>

definition forwarded_request :: request where
  "forwarded_request =
     \<lparr> req_method = ''GET'', url = ''/example.com/loop'', headers = [(''host'', ''proxy.test'')],
       encrypted = False,
       corsAnywhereRequestState =
         (new_request_state default_config)
           \<lparr>location := Some (url_parse ''http://example.com/loop''),
            proxyBaseUrl := Some ''http://proxy.test''\<rparr> \<rparr>"

definition redirect_loop :: transport where
  "redirect_loop n out =
     ProxyRes 302 [(''location'', Str ''http://example.com/loop''),
                   (''set-cookie'', Multi [''session=1''])]"

definition temporary_redirect :: transport where
  "temporary_redirect n out = ProxyRes 307 [(''location'', Str ''http://example.com/moved'')]"

definition redirect_then_temporary :: transport where
  "redirect_then_temporary n out =
     (if n = 0 then ProxyRes 302 [(''location'', Str ''http://example.com/loop'')]
      else ProxyRes 307 [(''location'', Str ''http://example.com/moved'')])"




section \<open>Properties of the CORS header synthesizer\<close>

lemma filter_ordered_keys: "filter P (ordered_keys ks) = ordered_keys (filter P ks)"
  by (simp add: ordered_keys_def filter_sort conj_commute)

lemma keys_update:
  "map fst (AList.update k v al) = (if k \<in> fst ` set al then map fst al else map fst al @ [k])"
  by (simp add: update_keys)

lemma withCORS_shape:
  "\<exists>h4. fst (withCORS h r) =
          AList.update ''access-control-allow-credentials'' (Str ''true'')
            (AList.update ''access-control-expose-headers'' (Str (join_comma (object_keys h4))) h4) \<and>
        fst ` set h \<subseteq> fst ` set h4 \<and>
        fst ` set h4 \<subseteq> fst ` set h \<union>
           {''access-control-allow-origin'', ''access-control-max-age'',
            ''access-control-allow-methods'', ''access-control-allow-headers''}"
  unfolding withCORS_def Let_def fst_conv
  by (rule exI, intro conjI, rule refl) (auto simp: dom_update split: option.splits)

lemma withCORS_request_fields:
  "req_method (snd (withCORS h r)) = req_method r"
  "url (snd (withCORS h r)) = url r"
  "encrypted (snd (withCORS h r)) = encrypted r"
  "corsAnywhereRequestState (snd (withCORS h r)) = corsAnywhereRequestState r"
  by (simp_all add: withCORS_def Let_def)

lemma withCORS_request_headers_other:
  "k \<noteq> ''access-control-request-method'' \<Longrightarrow> k \<noteq> ''access-control-request-headers'' \<Longrightarrow>
   map_of (headers (snd (withCORS h r))) k = map_of (headers r) k"
  by (simp add: withCORS_def Let_def delete_conv split: option.splits)

lemma withCORS_request_headers_subset:
  "map_of (headers r) k = None \<Longrightarrow> map_of (headers (snd (withCORS h r))) k = None"
  by (auto simp add: withCORS_def Let_def delete_conv split: option.splits if_splits)

text \<open>
  Claim C7, as the code has it. After \<open>withCORS\<close> the mapping has
  \<^verbatim>\<open>access-control-allow-origin\<close> \<^verbatim>\<open>*\<close> and \<^verbatim>\<open>access-control-allow-credentials\<close>
  \<^verbatim>\<open>true\<close>, and \<^verbatim>\<open>access-control-expose-headers\<close> is the comma-joined list of the
  names that were present when that entry was written: the names of the returned
  mapping without the entry itself and without \<^verbatim>\<open>access-control-allow-credentials\<close>,
  which is added after it (each of the two is listed only if the caller's mapping
  already had it).
\<close>

theorem withCORS_headers:
  "map_of (fst (withCORS headers0 request)) ''access-control-allow-origin'' = Some (Str ''*'') \<and>
   map_of (fst (withCORS headers0 request)) ''access-control-allow-credentials'' = Some (Str ''true'') \<and>
   map_of (fst (withCORS headers0 request)) ''access-control-expose-headers'' =
     Some (Str (join_comma (filter (listed headers0) (object_keys (fst (withCORS headers0 request))))))"
proof -
  let ?cred = "''access-control-allow-credentials''" and ?exp = "''access-control-expose-headers''"
  obtain h4 where
    eq: "fst (withCORS headers0 request) =
          AList.update ?cred (Str ''true'') (AList.update ?exp (Str (join_comma (object_keys h4))) h4)"
    and sub: "fst ` set headers0 \<subseteq> fst ` set h4"
    and sup: "fst ` set h4 \<subseteq> fst ` set headers0 \<union>
           {''access-control-allow-origin'', ''access-control-max-age'',
            ''access-control-allow-methods'', ''access-control-allow-headers''}"
    using withCORS_shape by blast
  have origin: "map_of (fst (withCORS headers0 request)) ''access-control-allow-origin'' = Some (Str ''*'')"
    by (simp add: withCORS_def Let_def update_conv' split: option.splits)
  have all_listed: "filter (listed headers0) (map fst h4) = map fst h4"
    using sup by (auto simp: filter_id_conv listed_def)
  have exp_new: "?exp \<notin> fst ` set h4 \<Longrightarrow> \<not> listed headers0 ?exp"
    using sub by (auto simp: listed_def)
  have cred_new: "?cred \<notin> fst ` set h4 \<Longrightarrow> \<not> listed headers0 ?cred"
    using sub by (auto simp: listed_def)
  have "filter (listed headers0) (map fst (fst (withCORS headers0 request))) = map fst h4"
    unfolding eq using all_listed exp_new cred_new
    by (auto simp: keys_update dom_update)
  then have "filter (listed headers0) (object_keys (fst (withCORS headers0 request))) = object_keys h4"
    by (simp add: object_keys_def filter_ordered_keys)
  moreover have "map_of (fst (withCORS headers0 request)) ?exp = Some (Str (join_comma (object_keys h4)))"
    unfolding eq by (simp add: update_conv')
  moreover have "map_of (fst (withCORS headers0 request)) ?cred = Some (Str ''true'')"
    unfolding eq by (simp add: update_conv')
  ultimately show ?thesis using origin by simp
qed

text \<open>
  The theorem at the header set of a finalized response to a preflight that asks for the
  method \<^verbatim>\<open>PUT\<close>: the names listed are the three present before the entry is written.
\<close>

theorem withCORS_headers_witness:
  "map_of (fst (withCORS [(''x-final-url'', Str ''http://example.com/'')]
                  (plain_request ''OPTIONS'' ''/example.com''
                     [(''access-control-request-method'', ''PUT'')])))
      ''access-control-expose-headers'' =
     Some (Str ''x-final-url,access-control-allow-origin,access-control-allow-methods'')"
proof -
  have e: "join_comma (filter (listed [(''x-final-url'', Str ''http://example.com/'')])
             (object_keys (fst (withCORS [(''x-final-url'', Str ''http://example.com/'')]
                  (plain_request ''OPTIONS'' ''/example.com''
                     [(''access-control-request-method'', ''PUT'')]))))) =
           ''x-final-url,access-control-allow-origin,access-control-allow-methods''"
    by code_simp
  show ?thesis
    using withCORS_headers [of "[(''x-final-url'', Str ''http://example.com/'')]"
        "plain_request ''OPTIONS'' ''/example.com'' [(''access-control-request-method'', ''PUT'')]"]
    unfolding e by simp
qed

text \<open>
  Claim C7 as stated fails on the empty header set, which is how the handler calls
  \<open>withCORS\<close>: the returned mapping has three names, and
  \<^verbatim>\<open>access-control-expose-headers\<close> lists only \<^verbatim>\<open>access-control-allow-origin\<close>; it
  lists neither itself nor \<^verbatim>\<open>access-control-allow-credentials\<close>.
\<close>

theorem withCORS_expose_headers_counterexample:
  "object_keys (fst (withCORS [] (plain_request ''GET'' ''/example.com'' []))) =
     [''access-control-allow-origin'', ''access-control-expose-headers'',
      ''access-control-allow-credentials''] \<and>
   map_of (fst (withCORS [] (plain_request ''GET'' ''/example.com'' [])))
      ''access-control-expose-headers'' = Some (Str ''access-control-allow-origin'') \<and>
   map_of (fst (withCORS [] (plain_request ''GET'' ''/example.com'' [])))
      ''access-control-expose-headers'' \<noteq>
     Some (Str (join_comma
       (object_keys (fst (withCORS [] (plain_request ''GET'' ''/example.com'' []))))))"
  by code_simp

section \<open>Properties of the request handler\<close>

lemma request_seen_fields:
  "req_method (request_seen c r) = req_method r"
  "url (request_seen c r) = url r"
  "encrypted (request_seen c r) = encrypted r"
  "corsAnywhereRequestState (request_seen c r) = new_request_state c"
  by (simp_all add: request_seen_def withCORS_request_fields)

lemma request_seen_origin: "request_origin (headers (request_seen c r)) = request_origin (headers r)"
  by (simp add: request_seen_def request_origin_def withCORS_request_headers_other)

lemma request_seen_required:
  "\<not> hasRequiredHeaders required (headers r) \<Longrightarrow>
   \<not> hasRequiredHeaders required (headers (request_seen c r))"
  unfolding hasRequiredHeaders_def request_seen_def
  by (cases required) (auto simp: list_ex_iff withCORS_request_headers_subset)

lemma getHandler_options:
  "req_method req0 = ''OPTIONS'' \<Longrightarrow>
   getHandler env c req0 = Reply 200 [] (cors_headers_for c req0) []"
  unfolding getHandler_def cors_headers_for_def
  by (simp add: Let_def split_def withCORS_request_fields)

lemma getHandler_hook:
  "req_method req0 \<noteq> ''OPTIONS'' \<Longrightarrow> hook_handles c req0 (parseURL (drop 1 (url req0))) \<Longrightarrow>
   getHandler env c req0 = HandledByHook (parseURL (drop 1 (url req0)))"
  unfolding getHandler_def hook_handles_def request_seen_def
  by (simp add: Let_def split_def withCORS_request_fields)

lemma getHandler_header_required:
  "passes_early_checks env c req0 loc \<Longrightarrow>
   \<not> hasRequiredHeaders (normalize_requireHeader (requireHeader c)) (headers (request_seen c req0)) \<Longrightarrow>
   getHandler env c req0 =
     Reply 400 ''Header required'' (cors_headers_for c req0)
       (''Missing required request header. Must specify one of: '' @
        join_comma (case normalize_requireHeader (requireHeader c) of
                      None \<Rightarrow> [] | Some names \<Rightarrow> names))"
  unfolding getHandler_def passes_early_checks_def hook_handles_def request_seen_def
    cors_headers_for_def
  by (auto simp add: Let_def split_def withCORS_request_fields)

lemma getHandler_header_required_never_403:
  "req_method req0 \<noteq> ''OPTIONS'' \<Longrightarrow>
   \<not> hasRequiredHeaders (normalize_requireHeader (requireHeader c)) (headers (request_seen c req0)) \<Longrightarrow>
   getHandler env c req0 \<noteq> Reply 403 reason hs text"
  unfolding getHandler_def request_seen_def
  by (auto simp add: Let_def split_def withCORS_request_fields split: option.splits)

lemma getHandler_policy:
  "reaches_origin_checks env c req0 loc \<Longrightarrow>
   getHandler env c req0 = handler_policy c (cors_headers_for c req0) (request_seen c req0) loc"
  unfolding getHandler_def reaches_origin_checks_def passes_early_checks_def hook_handles_def
    request_seen_def cors_headers_for_def
  by (auto simp add: Let_def split_def withCORS_request_fields)

lemma endsWith_longer: "endsWith s (x # s) = False"
  by (simp add: endsWith_def)

lemma blacklist_test:
  "list_ex (\<lambda>domain0. let domain = toLowerCase domain0; hn = toLowerCase h
                      in hn \<noteq> domain \<or> endsWith hn (''.'' @ domain)) bl =
   (\<exists>d \<in> set bl. toLowerCase h \<noteq> toLowerCase d)"
  by (auto simp: list_ex_iff Let_def endsWith_longer)

lemma handler_policy_origin_blacklisted:
  "request_origin (headers req) \<in> set (originBlacklist c) \<Longrightarrow>
   handler_policy c ch req loc =
     Reply 403 ''Forbidden'' ch
       (''The origin \"'' @ request_origin (headers req) @
        ''\" was blacklisted by the operator of this proxy.'')"
  by (simp add: handler_policy_def Let_def)

lemma handler_policy_origin_not_whitelisted:
  "request_origin (headers req) \<notin> set (originBlacklist c) \<Longrightarrow>
   originWhitelist c \<noteq> [] \<Longrightarrow> request_origin (headers req) \<notin> set (originWhitelist c) \<Longrightarrow>
   handler_policy c ch req loc =
     Reply 403 ''Forbidden'' ch
       (''The origin \"'' @ request_origin (headers req) @
        ''\" was not whitelisted by the operator of this proxy.'')"
  by (simp add: handler_policy_def Let_def)

lemma handler_policy_origin_not_blacklisted:
  "request_origin (headers req) \<notin> set (originBlacklist c) \<Longrightarrow>
   handler_policy c ch req loc \<noteq>
     Reply 403 ''Forbidden'' h
       (''The origin \"'' @ request_origin (headers req) @
        ''\" was blacklisted by the operator of this proxy.'')"
  by (simp add: handler_policy_def Let_def handler_forward_def)

lemma handler_policy_target_blacklist:
  "origin_allowed c (request_origin (headers req)) \<Longrightarrow> targetWhitelist c = [] \<Longrightarrow>
   (handler_policy c ch req loc =
      Reply 403 ''Forbidden'' ch
        (''The target URL hostname \"'' @ hostname loc @ ''\" is not allowed by this proxy.'')) =
   (targetBlacklist c \<noteq> [] \<and>
    (\<forall>d \<in> set (targetBlacklist c). toLowerCase (hostname loc) = toLowerCase d))"
  unfolding handler_policy_def origin_allowed_def blacklist_test
  by (auto simp add: Let_def handler_forward_def)

lemma handler_policy_rate_limited:
  "origin_allowed c (request_origin (headers req)) \<Longrightarrow> target_allowed c loc \<Longrightarrow>
   call_checkRateLimit (checkRateLimit c) (request_origin (headers req)) \<noteq> [] \<Longrightarrow>
   handler_policy c ch req loc =
     Reply 429 ''Too Many Requests'' ch
       (''The origin \"'' @ request_origin (headers req) @ ''\" has sent too many requests.'' @
        [CHR 0x0A] @ call_checkRateLimit (checkRateLimit c) (request_origin (headers req)))"
  unfolding handler_policy_def origin_allowed_def target_allowed_def
  by (auto simp add: Let_def)

lemma handler_policy_checkRateLimit_arg:
  "f (request_origin (headers req)) = g (request_origin (headers req)) \<Longrightarrow>
   handler_policy (c\<lparr>checkRateLimit := Some f\<rparr>) ch req loc =
   handler_policy (c\<lparr>checkRateLimit := Some g\<rparr>) ch req loc"
  by (simp add: handler_policy_def Let_def call_checkRateLimit_def handler_forward_def)

lemma getHandler_checkRateLimit_arg:
  "f (request_origin (headers req0)) = g (request_origin (headers req0)) \<Longrightarrow>
   getHandler env (c\<lparr>checkRateLimit := Some f\<rparr>) req0 =
   getHandler env (c\<lparr>checkRateLimit := Some g\<rparr>) req0"
  using request_seen_origin[of c req0]
    handler_policy_checkRateLimit_arg[of f "request_seen c req0" g c]
  unfolding getHandler_def request_seen_def
  by (simp add: Let_def split_def withCORS_request_fields new_request_state_def
        split: option.splits)


lemma reply_of_eq:
  "(reply_of h = Some (status, reason, hs, text)) = (h = Reply status reason hs text)"
  by (cases h) (auto simp: reply_of_def)

text \<open>
  Claim C9, as the code has it. A preflight (method \<^verbatim>\<open>OPTIONS\<close>) is answered with
  status 200 and the CORS headers whatever the hook would return: the hook is not
  consulted for it. For every other request on which the hook returns a truthy value,
  the hook is called with the extracted target (which may be \<^verbatim>\<open>null\<close>) and the
  handler stops there, so none of the later checks decides the request.
\<close>

theorem handleInitialRequest_after_preflight:
  "(req_method req0 = ''OPTIONS'' \<longrightarrow>
      getHandler env c req0 = Reply 200 [] (cors_headers_for c req0) []) \<and>
   (req_method req0 \<noteq> ''OPTIONS'' \<and> handleInitialRequest c = Some hook \<and>
    hook (request_seen c req0) (parseURL (drop 1 (url req0))) \<longrightarrow>
      getHandler env c req0 = HandledByHook (parseURL (drop 1 (url req0))))"
proof (intro conjI impI)
  assume "req_method req0 = ''OPTIONS''"
  then show "getHandler env c req0 = Reply 200 [] (cors_headers_for c req0) []"
    by (rule getHandler_options)
next
  assume a: "req_method req0 \<noteq> ''OPTIONS'' \<and> handleInitialRequest c = Some hook \<and>
    hook (request_seen c req0) (parseURL (drop 1 (url req0)))"
  then have "hook_handles c req0 (parseURL (drop 1 (url req0)))"
    unfolding hook_handles_def call_hook_def by simp
  with a show "getHandler env c req0 = HandledByHook (parseURL (drop 1 (url req0)))"
    by (intro getHandler_hook) simp_all
qed

text \<open>
  The theorem at a hook that takes every request, with a blacklisted origin and a
  blacklisted target: the \<^verbatim>\<open>GET\<close> request is left to the hook, called with the
  target \<^verbatim>\<open>http://evil.com/x\<close>.
\<close>

theorem handleInitialRequest_after_preflight_witness:
  "getHandler scenario_env
     (default_config\<lparr>handleInitialRequest := Some (\<lambda>req loc. True),
        originBlacklist := [''http://bad.example''], targetBlacklist := [''evil.com'']\<rparr>)
     (plain_request ''GET'' ''/evil.com/x'' [(''origin'', ''http://bad.example'')]) =
   HandledByHook (Some (url_parse ''http://evil.com/x''))"
proof -
  have t: "parseURL (drop 1 (url (plain_request ''GET'' ''/evil.com/x''
              [(''origin'', ''http://bad.example'')]))) = Some (url_parse ''http://evil.com/x'')"
    by code_simp
  have m: "req_method (plain_request ''GET'' ''/evil.com/x''
              [(''origin'', ''http://bad.example'')]) \<noteq> ''OPTIONS''"
    by code_simp
  show ?thesis
    using handleInitialRequest_after_preflight
      [of "plain_request ''GET'' ''/evil.com/x'' [(''origin'', ''http://bad.example'')]"
          scenario_env
          "default_config\<lparr>handleInitialRequest := Some (\<lambda>req loc. True),
             originBlacklist := [''http://bad.example''], targetBlacklist := [''evil.com'']\<rparr>"
          "\<lambda>req loc. True"] m
    unfolding t by simp
qed

text \<open>
  Claim C9 as stated fails on a preflight: with a hook that would take every request,
  the \<^verbatim>\<open>OPTIONS\<close> request is still answered by the built-in preflight reply and is
  not left to the hook.
\<close>

theorem handleInitialRequest_preflight_counterexample:
  "reply_of (getHandler scenario_env (default_config\<lparr>handleInitialRequest := Some (\<lambda>req loc. True)\<rparr>)
     (plain_request ''OPTIONS'' ''/example.com/'' [])) =
   Some (200, [],
     [(''access-control-allow-origin'', Str ''*''),
      (''access-control-expose-headers'', Str ''access-control-allow-origin''),
      (''access-control-allow-credentials'', Str ''true'')], []) \<and>
   getHandler scenario_env (default_config\<lparr>handleInitialRequest := Some (\<lambda>req loc. True)\<rparr>)
     (plain_request ''OPTIONS'' ''/example.com/'' []) \<noteq>
   HandledByHook (parseURL (drop 1 (url (plain_request ''OPTIONS'' ''/example.com/'' []))))"
proof -
  have r: "reply_of (getHandler scenario_env (default_config\<lparr>handleInitialRequest := Some (\<lambda>req loc. True)\<rparr>)
     (plain_request ''OPTIONS'' ''/example.com/'' [])) =
   Some (200, [],
     [(''access-control-allow-origin'', Str ''*''),
      (''access-control-expose-headers'', Str ''access-control-allow-origin''),
      (''access-control-allow-credentials'', Str ''true'')], [])"
    by code_simp
  then have "getHandler scenario_env (default_config\<lparr>handleInitialRequest := Some (\<lambda>req loc. True)\<rparr>)
     (plain_request ''OPTIONS'' ''/example.com/'' []) \<noteq>
   HandledByHook (parseURL (drop 1 (url (plain_request ''OPTIONS'' ''/example.com/'' []))))"
    by (auto simp: reply_of_def)
  with r show ?thesis
    by (intro conjI)
qed

text \<open>
  Claim C5. A request that is not a preflight, carries none of the required headers and
  comes from a blacklisted origin is never answered with status 403; and when it reaches
  the policy checks (it has a target, is not taken by the hook and passes the probe-path,
  port and host-name checks, which come first) it is rejected with status 400 and the
  required-header message.
\<close>

theorem required_header_before_origin_blacklist:
  assumes "req_method req0 \<noteq> ''OPTIONS''"
    and "\<not> hasRequiredHeaders (normalize_requireHeader (requireHeader c)) (headers req0)"
    and "request_origin (headers req0) \<in> set (originBlacklist c)"
  shows "(\<forall>reason hs text. getHandler env c req0 \<noteq> Reply 403 reason hs text) \<and>
         (passes_early_checks env c req0 loc \<longrightarrow>
            getHandler env c req0 =
              Reply 400 ''Header required'' (cors_headers_for c req0)
                (''Missing required request header. Must specify one of: '' @
                 join_comma (case normalize_requireHeader (requireHeader c) of
                               None \<Rightarrow> [] | Some names \<Rightarrow> names)))"
proof -
  have seen: "\<not> hasRequiredHeaders (normalize_requireHeader (requireHeader c))
                 (headers (request_seen c req0))"
    using assms(2) by (rule request_seen_required)
  show ?thesis
    using getHandler_header_required_never_403 [OF assms(1) seen, of env]
      getHandler_header_required [OF _ seen, of env loc]
    by blast
qed

text \<open>
  The theorem at a proxy that requires \<^verbatim>\<open>X-Requested-With\<close> and blacklists the
  origin \<^verbatim>\<open>http://bad.example\<close>: the request from that origin without the header is
  rejected with status 400.
\<close>

theorem required_header_before_origin_blacklist_witness:
  "req_method (plain_request ''GET'' ''/example.com/''
      [(''host'', ''proxy.test''), (''origin'', ''http://bad.example'')]) \<noteq> ''OPTIONS'' \<and>
   request_origin (headers (plain_request ''GET'' ''/example.com/''
      [(''host'', ''proxy.test''), (''origin'', ''http://bad.example'')])) \<in>
     set (originBlacklist (default_config\<lparr>requireHeader := HeaderName ''X-Requested-With'',
            originBlacklist := [''http://bad.example'']\<rparr>)) \<and>
   getHandler scenario_env
     (default_config\<lparr>requireHeader := HeaderName ''X-Requested-With'',
        originBlacklist := [''http://bad.example'']\<rparr>)
     (plain_request ''GET'' ''/example.com/''
        [(''host'', ''proxy.test''), (''origin'', ''http://bad.example'')]) =
   Reply 400 ''Header required''
     [(''access-control-allow-origin'', Str ''*''),
      (''access-control-expose-headers'', Str ''access-control-allow-origin''),
      (''access-control-allow-credentials'', Str ''true'')]
     ''Missing required request header. Must specify one of: x-requested-with''"
proof -
  let ?c = "default_config\<lparr>requireHeader := HeaderName ''X-Requested-With'',
              originBlacklist := [''http://bad.example'']\<rparr>"
  let ?r = "plain_request ''GET'' ''/example.com/''
              [(''host'', ''proxy.test''), (''origin'', ''http://bad.example'')]"
  have m: "req_method ?r \<noteq> ''OPTIONS''"
    by code_simp
  have h: "\<not> hasRequiredHeaders (normalize_requireHeader (requireHeader ?c)) (headers ?r)"
    by code_simp
  have b: "request_origin (headers ?r) \<in> set (originBlacklist ?c)"
    by code_simp
  have p: "passes_early_checks scenario_env ?c ?r (url_parse ''http://example.com/'')"
    by code_simp
  have e1: "cors_headers_for ?c ?r =
             [(''access-control-allow-origin'', Str ''*''),
              (''access-control-expose-headers'', Str ''access-control-allow-origin''),
              (''access-control-allow-credentials'', Str ''true'')]"
    by code_simp
  have e2: "''Missing required request header. Must specify one of: '' @
              join_comma (case normalize_requireHeader (requireHeader ?c) of
                            None \<Rightarrow> [] | Some names \<Rightarrow> names) =
            ''Missing required request header. Must specify one of: x-requested-with''"
    by code_simp
  from required_header_before_origin_blacklist [OF m h b, of scenario_env "url_parse ''http://example.com/''"] p
  have "getHandler scenario_env ?c ?r =
          Reply 400 ''Header required'' (cors_headers_for ?c ?r)
             (''Missing required request header. Must specify one of: '' @
              join_comma (case normalize_requireHeader (requireHeader ?c) of
                            None \<Rightarrow> [] | Some names \<Rightarrow> names))"
    by blast
  then have "getHandler scenario_env ?c ?r =
          Reply 400 ''Header required''
             [(''access-control-allow-origin'', Str ''*''),
              (''access-control-expose-headers'', Str ''access-control-allow-origin''),
              (''access-control-allow-credentials'', Str ''true'')]
             ''Missing required request header. Must specify one of: x-requested-with''"
    unfolding e1 e2 .
  with m b show ?thesis
    by blast
qed

text \<open>
  Claim C10. For a request without an \<^verbatim>\<open>Origin\<close> header that reaches the origin
  checks, the origin is the empty string: the request gets the origin-blacklist reply
  exactly when the empty string is a blacklist entry; it is rejected with status 403
  whenever the origin whitelist is not empty and does not hold the empty string; the
  handler's result depends on the rate-limit checker only through its value at the
  empty string; and when the request reaches the rate limit and the checker's message
  for the empty string is not empty, the request is rejected with status 429 and that
  message.
\<close>

theorem missing_origin_is_empty_string:
  assumes "map_of (headers req0) ''origin'' = None"
    and "reaches_origin_checks env c req0 loc"
  shows "((getHandler env c req0 =
             Reply 403 ''Forbidden'' (cors_headers_for c req0)
               ''The origin \"\" was blacklisted by the operator of this proxy.'') =
          ([] \<in> set (originBlacklist c))) \<and>
         (originWhitelist c \<noteq> [] \<and> [] \<notin> set (originWhitelist c) \<longrightarrow>
            (\<exists>text. getHandler env c req0 =
               Reply 403 ''Forbidden'' (cors_headers_for c req0) text)) \<and>
         (\<forall>f g. f [] = g [] \<longrightarrow>
            getHandler env (c\<lparr>checkRateLimit := Some f\<rparr>) req0 =
            getHandler env (c\<lparr>checkRateLimit := Some g\<rparr>) req0) \<and>
         (\<forall>f. origin_allowed c [] \<and> target_allowed c loc \<and> checkRateLimit c = Some f \<and>
              f [] \<noteq> [] \<longrightarrow>
            getHandler env c req0 =
              Reply 429 ''Too Many Requests'' (cors_headers_for c req0)
                (''The origin \"\" has sent too many requests.'' @ [CHR 0x0A] @ f []))"
proof -
  have origin: "request_origin (headers req0) = []"
    using assms(1) by (simp add: request_origin_def)
  then have seen: "request_origin (headers (request_seen c req0)) = []"
    by (simp add: request_seen_origin)
  note policy = getHandler_policy [OF assms(2)]
  have blacklist: "(getHandler env c req0 =
             Reply 403 ''Forbidden'' (cors_headers_for c req0)
               ''The origin \"\" was blacklisted by the operator of this proxy.'') =
          ([] \<in> set (originBlacklist c))"
    using handler_policy_origin_blacklisted [of "request_seen c req0" c "cors_headers_for c req0" loc]
      handler_policy_origin_not_blacklisted [of "request_seen c req0" c "cors_headers_for c req0" loc
        "cors_headers_for c req0"]
    unfolding policy seen by auto
  have whitelist: "originWhitelist c \<noteq> [] \<and> [] \<notin> set (originWhitelist c) \<longrightarrow>
            (\<exists>text. getHandler env c req0 =
               Reply 403 ''Forbidden'' (cors_headers_for c req0) text)"
    using handler_policy_origin_blacklisted [of "request_seen c req0" c "cors_headers_for c req0" loc]
      handler_policy_origin_not_whitelisted [of "request_seen c req0" c "cors_headers_for c req0" loc]
    unfolding policy seen by (cases "[] \<in> set (originBlacklist c)") auto
  have checker: "\<forall>f g. f [] = g [] \<longrightarrow>
            getHandler env (c\<lparr>checkRateLimit := Some f\<rparr>) req0 =
            getHandler env (c\<lparr>checkRateLimit := Some g\<rparr>) req0"
    using getHandler_checkRateLimit_arg [of _ req0 _ env c] unfolding origin by blast
  have limited: "\<forall>f. origin_allowed c [] \<and> target_allowed c loc \<and> checkRateLimit c = Some f \<and>
              f [] \<noteq> [] \<longrightarrow>
            getHandler env c req0 =
              Reply 429 ''Too Many Requests'' (cors_headers_for c req0)
                (''The origin \"\" has sent too many requests.'' @ [CHR 0x0A] @ f [])"
    using handler_policy_rate_limited [of c "request_seen c req0" loc "cors_headers_for c req0"]
    unfolding policy seen by (auto simp: call_checkRateLimit_def)
  from blacklist whitelist checker limited show ?thesis
    by blast
qed

text \<open>
  The theorem at a proxy whose rate-limit checker limits the clients that send no
  origin: the request without an \<^verbatim>\<open>Origin\<close> header is rejected with status 429 and
  the checker's message for the empty string.
\<close>

theorem missing_origin_is_empty_string_witness:
  "map_of (headers (plain_request ''GET'' ''/example.com/'' [(''host'', ''proxy.test'')]))
      ''origin'' = None \<and>
   reaches_origin_checks scenario_env
     (default_config\<lparr>checkRateLimit :=
        Some (\<lambda>origin. if origin = [] then ''no origin, no service'' else [])\<rparr>)
     (plain_request ''GET'' ''/example.com/'' [(''host'', ''proxy.test'')])
     (url_parse ''http://example.com/'') \<and>
   getHandler scenario_env
     (default_config\<lparr>checkRateLimit :=
        Some (\<lambda>origin. if origin = [] then ''no origin, no service'' else [])\<rparr>)
     (plain_request ''GET'' ''/example.com/'' [(''host'', ''proxy.test'')]) =
   Reply 429 ''Too Many Requests''
     [(''access-control-allow-origin'', Str ''*''),
      (''access-control-expose-headers'', Str ''access-control-allow-origin''),
      (''access-control-allow-credentials'', Str ''true'')]
     (''The origin \"\" has sent too many requests.'' @ [CHR 0x0A] @ ''no origin, no service'')"
proof -
  define f :: "string \<Rightarrow> string" where
    "f = (\<lambda>origin. if origin = [] then ''no origin, no service'' else [])"
  let ?c = "default_config\<lparr>checkRateLimit := Some f\<rparr>"
  let ?r = "plain_request ''GET'' ''/example.com/'' [(''host'', ''proxy.test'')]"
  let ?loc = "url_parse ''http://example.com/''"
  have o: "map_of (headers ?r) ''origin'' = None"
    by code_simp
  have p: "reaches_origin_checks scenario_env ?c ?r ?loc"
    unfolding f_def by code_simp
  have a: "origin_allowed ?c []" "target_allowed ?c ?loc"
    unfolding f_def by code_simp+
  have k: "checkRateLimit ?c = Some f"
    by simp
  have v: "f [] = ''no origin, no service''" "f [] \<noteq> []"
    by (simp_all add: f_def)
  have e: "cors_headers_for ?c ?r =
             [(''access-control-allow-origin'', Str ''*''),
              (''access-control-expose-headers'', Str ''access-control-allow-origin''),
              (''access-control-allow-credentials'', Str ''true'')]"
    unfolding f_def by code_simp
  have "\<forall>g. origin_allowed ?c [] \<and> target_allowed ?c ?loc \<and> checkRateLimit ?c = Some g \<and>
              g [] \<noteq> [] \<longrightarrow>
            getHandler scenario_env ?c ?r =
              Reply 429 ''Too Many Requests'' (cors_headers_for ?c ?r)
                (''The origin \"\" has sent too many requests.'' @ [CHR 0x0A] @ g [])"
    using missing_origin_is_empty_string [OF o p] by (elim conjE)
  then have "getHandler scenario_env ?c ?r =
          Reply 429 ''Too Many Requests'' (cors_headers_for ?c ?r)
            (''The origin \"\" has sent too many requests.'' @ [CHR 0x0A] @ f [])"
    using a k v(2) by (elim allE [of _ f]) (rule mp, assumption, intro conjI)
  then have "getHandler scenario_env ?c ?r =
          Reply 429 ''Too Many Requests''
             [(''access-control-allow-origin'', Str ''*''),
              (''access-control-expose-headers'', Str ''access-control-allow-origin''),
              (''access-control-allow-credentials'', Str ''true'')]
            (''The origin \"\" has sent too many requests.'' @ [CHR 0x0A] @ ''no origin, no service'')"
    unfolding e v(1) .
  with o p show ?thesis
    unfolding f_def by (intro conjI)
qed

text \<open>
  Claim C1, what the code does. A request that reaches the target blacklist (with no
  target whitelist configured) is rejected by it exactly when the blacklist is not empty
  and every entry, in lower case, equals the lower-case host name of the target. The
  test inside \<^verbatim>\<open>some\<close> is \<^verbatim>\<open>hostname !== domain || hostname.endsWith('.' + domain)\<close>,
  which holds for every entry that differs from the host name; so a sub-domain of a
  blacklisted domain passes, and with two or more different entries every target passes.
\<close>

theorem targetBlacklist_rejects_only_equal_entries:
  assumes "reaches_origin_checks env c req0 loc"
    and "origin_allowed c (request_origin (headers req0))"
    and "targetWhitelist c = []"
  shows "(getHandler env c req0 =
            Reply 403 ''Forbidden'' (cors_headers_for c req0)
              (''The target URL hostname \"'' @ hostname loc @
               ''\" is not allowed by this proxy.'')) =
         (targetBlacklist c \<noteq> [] \<and>
          (\<forall>d \<in> set (targetBlacklist c). toLowerCase (hostname loc) = toLowerCase d))"
  using handler_policy_target_blacklist
    [of c "request_seen c req0" "cors_headers_for c req0" loc] assms(2,3)
  unfolding getHandler_policy [OF assms(1)] request_seen_origin
  by simp

text \<open>
  The theorem at the blacklist \<^verbatim>\<open>["evil.com"]\<close>: the request for
  \<^verbatim>\<open>/sub.evil.com/x\<close> is not rejected. Evaluated beside it: the request is admitted
  and forwarded, as is the one for \<^verbatim>\<open>/notevil.com/x\<close>; the request for
  \<^verbatim>\<open>/evil.com/x\<close> is rejected with status 403 and a message naming
  \<^verbatim>\<open>evil.com\<close>; and with the blacklist \<^verbatim>\<open>["evil.com", "bad.com"]\<close> the request for
  \<^verbatim>\<open>/evil.com/x\<close> is admitted.
\<close>

theorem targetBlacklist_subdomain_witness:
  "getHandler scenario_env (default_config\<lparr>targetBlacklist := [''evil.com'']\<rparr>)
     (plain_request ''GET'' ''/sub.evil.com/x'' [(''host'', ''proxy.test'')]) \<noteq>
   Reply 403 ''Forbidden''
     (cors_headers_for (default_config\<lparr>targetBlacklist := [''evil.com'']\<rparr>)
        (plain_request ''GET'' ''/sub.evil.com/x'' [(''host'', ''proxy.test'')]))
     ''The target URL hostname \"sub.evil.com\" is not allowed by this proxy.'' \<and>
   admitted (getHandler scenario_env (default_config\<lparr>targetBlacklist := [''evil.com'']\<rparr>)
     (plain_request ''GET'' ''/sub.evil.com/x'' [(''host'', ''proxy.test'')])) \<and>
   admitted (getHandler scenario_env (default_config\<lparr>targetBlacklist := [''evil.com'']\<rparr>)
     (plain_request ''GET'' ''/notevil.com/x'' [(''host'', ''proxy.test'')])) \<and>
   reply_of (getHandler scenario_env (default_config\<lparr>targetBlacklist := [''evil.com'']\<rparr>)
     (plain_request ''GET'' ''/evil.com/x'' [(''host'', ''proxy.test'')])) =
   Some (403, ''Forbidden'',
     [(''access-control-allow-origin'', Str ''*''),
      (''access-control-expose-headers'', Str ''access-control-allow-origin''),
      (''access-control-allow-credentials'', Str ''true'')],
     ''The target URL hostname \"evil.com\" is not allowed by this proxy.'') \<and>
   admitted (getHandler scenario_env
     (default_config\<lparr>targetBlacklist := [''evil.com'', ''bad.com'']\<rparr>)
     (plain_request ''GET'' ''/evil.com/x'' [(''host'', ''proxy.test'')]))"
proof -
  let ?c = "default_config\<lparr>targetBlacklist := [''evil.com'']\<rparr>"
  let ?r = "plain_request ''GET'' ''/sub.evil.com/x'' [(''host'', ''proxy.test'')]"
  let ?loc = "url_parse ''http://sub.evil.com/x''"
  have p: "reaches_origin_checks scenario_env ?c ?r ?loc"
    by code_simp
  have a: "origin_allowed ?c (request_origin (headers ?r))"
    by code_simp
  have w: "targetWhitelist ?c = []"
    by code_simp
  have n: "\<not> (targetBlacklist ?c \<noteq> [] \<and>
              (\<forall>d \<in> set (targetBlacklist ?c). toLowerCase (hostname ?loc) = toLowerCase d))"
    by code_simp
  have h: "hostname ?loc = ''sub.evil.com''"
    by code_simp
  have "getHandler scenario_env ?c ?r \<noteq>
     Reply 403 ''Forbidden'' (cors_headers_for ?c ?r)
       (''The target URL hostname \"'' @ hostname ?loc @ ''\" is not allowed by this proxy.'')"
    using targetBlacklist_rejects_only_equal_entries [OF p a w] n by blast
  then have sub: "getHandler scenario_env ?c ?r \<noteq>
     Reply 403 ''Forbidden'' (cors_headers_for ?c ?r)
       ''The target URL hostname \"sub.evil.com\" is not allowed by this proxy.''"
    unfolding h by simp
  have r1: "admitted (getHandler scenario_env ?c ?r)"
    by code_simp
  have r2: "admitted (getHandler scenario_env ?c
       (plain_request ''GET'' ''/notevil.com/x'' [(''host'', ''proxy.test'')]))"
    by code_simp
  have r3: "reply_of (getHandler scenario_env ?c
       (plain_request ''GET'' ''/evil.com/x'' [(''host'', ''proxy.test'')])) =
     Some (403, ''Forbidden'',
       [(''access-control-allow-origin'', Str ''*''),
        (''access-control-expose-headers'', Str ''access-control-allow-origin''),
        (''access-control-allow-credentials'', Str ''true'')],
       ''The target URL hostname \"evil.com\" is not allowed by this proxy.'')"
    by code_simp
  have r4: "admitted (getHandler scenario_env
       (default_config\<lparr>targetBlacklist := [''evil.com'', ''bad.com'']\<rparr>)
       (plain_request ''GET'' ''/evil.com/x'' [(''host'', ''proxy.test'')]))"
    by code_simp
  from sub r1 r2 r3 r4 show ?thesis
    by (intro conjI)
qed

section \<open>Properties of the fallback responder\<close>

lemma ordered_keys_set: "set (ordered_keys ks) = set ks"
  by (auto simp: ordered_keys_def)

lemma assign_keys:
  "map_of (foldl (\<lambda>h k. case map_of src k of None \<Rightarrow> h | Some v \<Rightarrow> AList.update k v h) dst ks) k =
   (if k \<in> set ks then (case map_of src k of None \<Rightarrow> map_of dst k | Some v \<Rightarrow> Some v)
    else map_of dst k)"
  by (induction ks arbitrary: dst) (auto simp: update_conv' split: option.splits)

lemma map_of_assign_all:
  "map_of (assign_all src dst) k = (case map_of src k of None \<Rightarrow> map_of dst k | Some v \<Rightarrow> Some v)"
  by (auto simp: assign_all_def assign_keys object_keys_def ordered_keys_set
        dom_map_of_conv_image_fst [symmetric] domIff split: option.splits)

lemma assign_all_status_header:
  "assign_all [(''Access-Control-Allow-Origin'', Str ''*'')] [] =
   [(''Access-Control-Allow-Origin'', Str ''*'')]"
  by code_simp

lemma removeHeader_all_headers:
  "res_headers (foldl (\<lambda>r name. removeHeader name r) r0 names) =
   foldl (\<lambda>hs name. AList.delete name hs) (res_headers r0) names"
  by (induction names arbitrary: r0) (simp_all add: removeHeader_def)

lemma removeHeader_all_fields:
  "headersSent (foldl (\<lambda>r name. removeHeader name r) r0 names) = headersSent r0"
  "writableEnded (foldl (\<lambda>r name. removeHeader name r) r0 names) = writableEnded r0"
  "res_body (foldl (\<lambda>r name. removeHeader name r) r0 names) = res_body r0"
  by (induction names arbitrary: r0) (simp_all add: removeHeader_def)

lemma keys_delete: "fst ` set (AList.delete k al) = fst ` set al - {k}"
  by (metis delete_keys set_map set_removeAll)

lemma delete_all_keys:
  "fst ` set (foldl (\<lambda>hs name. AList.delete name hs) hs names) = fst ` set hs - set names"
  by (induction names arbitrary: hs) (auto simp: keys_delete)

lemma delete_every_name: "foldl (\<lambda>hs name. AList.delete name hs) hs (map fst hs) = []"
  using delete_all_keys [of hs "map fst hs"] by simp

text \<open>
  Claim C8. On a proxy error, if the head of the response has been sent, the response is
  ended and nothing else changes: no body is added, status and headers stay. Otherwise
  every header set so far is removed and the client receives status 404 (not 500), the
  single header \<^verbatim>\<open>Access-Control-Allow-Origin: *\<close> and a body that names the error.
\<close>

theorem proxy_error_fallback:
  "(headersSent res \<longrightarrow>
      writableEnded (on_proxy_error err res) \<and>
      res_body (on_proxy_error err res) = res_body res \<and>
      res_headers (on_proxy_error err res) = res_headers res \<and>
      statusCode (on_proxy_error err res) = statusCode res) \<and>
   (\<not> headersSent res \<longrightarrow>
      statusCode (on_proxy_error err res) = 404 \<and>
      statusCode (on_proxy_error err res) \<noteq> 500 \<and>
      res_headers (on_proxy_error err res) = [(''Access-Control-Allow-Origin'', Str ''*'')] \<and>
      res_body (on_proxy_error err res) =
        res_body res @ ''Not found because of proxy error: '' @ err \<and>
      headersSent (on_proxy_error err res) \<and> writableEnded (on_proxy_error err res))"
  by (simp add: on_proxy_error_def res_end_def writeHead_def Let_def getHeaderNames_def
        removeHeader_all_headers removeHeader_all_fields delete_every_name
        assign_all_status_header)

text \<open>
  The theorem at a DNS failure on the first exchange, when \<^verbatim>\<open>x-request-url\<close> is the
  only header set so far.
\<close>

theorem proxy_error_fallback_witness:
  "\<not> headersSent (setHeader ''x-request-url'' (Str ''http://example.com/'') new_response) \<and>
   on_proxy_error ''Error: getaddrinfo ENOTFOUND example.com''
     (setHeader ''x-request-url'' (Str ''http://example.com/'') new_response) =
   \<lparr> headersSent = True, writableEnded = True, statusCode = 404,
     res_headers = [(''Access-Control-Allow-Origin'', Str ''*'')],
     res_body = ''Not found because of proxy error: Error: getaddrinfo ENOTFOUND example.com'' \<rparr>"
proof -
  let ?res = "setHeader ''x-request-url'' (Str ''http://example.com/'') new_response"
  have h: "\<not> headersSent ?res" and b: "res_body ?res = []"
    by (simp_all add: setHeader_def new_response_def)
  from proxy_error_fallback [of ?res "''Error: getaddrinfo ENOTFOUND example.com''"] h b
  show ?thesis
    by (cases "on_proxy_error ''Error: getaddrinfo ENOTFOUND example.com'' ?res") simp
qed

section \<open>Properties of the response mediator and the forwarding engine\<close>

lemma hops_left_outgoing_request: "hops_left (outgoing_request req loc) = hops_left req"
  by (simp add: hops_left_def outgoing_request_def)

lemma finalize_response_not_Redirected: "finalize_response hs req res loc \<noteq> Redirected req' res'"
  by (simp add: finalize_response_def Let_def split_def)

lemma onProxyResponse_Redirected_hops:
  assumes "onProxyResponse env status hs req res = Redirected req' res'"
  shows "hops_left req' < hops_left req"
proof -
  let ?st = "corsAnywhereRequestState req"
  let ?n = "next_redirect_count (redirectCount ?st)"
  from assms have le: "?n \<le> maxRedirects ?st"
    and rc: "redirectCount (corsAnywhereRequestState req') = Some ?n"
    and mx: "maxRedirects (corsAnywhereRequestState req') = maxRedirects ?st"
    by (auto simp: onProxyResponse_def Let_def finalize_response_not_Redirected
          split: option.splits if_splits)
  have "(case redirectCount ?st of None \<Rightarrow> 0 | Some n \<Rightarrow> n) < ?n"
    by (simp add: next_redirect_count_def split: option.splits)
  with le show ?thesis
    by (simp add: hops_left_def rc mx)
qed

lemma withCORS_keeps:
  "k \<notin> cors_names \<Longrightarrow> map_of (fst (withCORS h r)) k = map_of h k"
  by (simp add: withCORS_def Let_def cors_names_def update_conv' split: option.splits)

lemma finalize_response_PassThrough:
  "\<exists>hs' req'. finalize_response hs req res loc = PassThrough hs' req' res \<and>
     corsAnywhereRequestState req' = corsAnywhereRequestState req \<and>
     map_of hs' ''set-cookie'' = None \<and> map_of hs' ''set-cookie2'' = None \<and>
     map_of hs' ''location'' = map_of hs ''location'' \<and>
     map_of hs' ''x-final-url'' = Some (Str (href loc))"
  by (simp add: finalize_response_def Let_def split_def withCORS_keeps cors_names_def
        update_conv' delete_conv withCORS_request_fields)

lemma onProxyResponse_follow:
  assumes "location (corsAnywhereRequestState req) = Some loc"
    and "status = 301 \<or> status = 302 \<or> status = 303"
    and "location_header hs \<noteq> []"
    and "parseURL (url_resolve env (href loc) (location_header hs)) = Some new_loc"
    and "next_redirect_count (redirectCount (corsAnywhereRequestState req))
           \<le> maxRedirects (corsAnywhereRequestState req)"
  shows "\<exists>req'. onProxyResponse env status hs req res =
           Redirected req'
             (if \<not> headersSent res
              then setHeader (''X-CORS-Redirect-'' @
                      number_text (next_redirect_count (redirectCount (corsAnywhereRequestState req))))
                     (Str (number_text (int status) @ '' '' @
                           url_resolve env (href loc) (location_header hs)))
                     (stamp_request_url req loc res)
              else res) \<and>
           corsAnywhereRequestState req' =
             (corsAnywhereRequestState req)
               \<lparr>redirectCount := Some (next_redirect_count (redirectCount (corsAnywhereRequestState req))),
                location := Some new_loc\<rparr>"
  using assms
  by (auto simp: onProxyResponse_def Let_def stamp_request_url_def setHeader_def)

lemma onProxyResponse_limit:
  assumes "location (corsAnywhereRequestState req) = Some loc"
    and "status = 301 \<or> status = 302 \<or> status = 303"
    and "location_header hs \<noteq> []"
    and "parseURL (url_resolve env (href loc) (location_header hs)) = Some new_loc"
    and "\<not> next_redirect_count (redirectCount (corsAnywhereRequestState req))
           \<le> maxRedirects (corsAnywhereRequestState req)"
  shows "\<exists>hs' req'. onProxyResponse env status hs req res =
           PassThrough hs' req' (stamp_request_url req loc res) \<and>
           map_of hs' ''location'' =
             Some (Str (rewritten_location (proxyBaseUrl (corsAnywhereRequestState req))
                          (url_resolve env (href loc) (location_header hs)))) \<and>
           map_of hs' ''set-cookie'' = None \<and> map_of hs' ''set-cookie2'' = None"
proof -
  let ?st = "corsAnywhereRequestState req"
  let ?hs = "AList.update ''location''
               (Str (rewritten_location (proxyBaseUrl ?st)
                       (url_resolve env (href loc) (location_header hs)))) hs"
  let ?req = "req\<lparr>corsAnywhereRequestState :=
                 ?st\<lparr>redirectCount := Some (next_redirect_count (redirectCount ?st))\<rparr>\<rparr>"
  have "onProxyResponse env status hs req res =
          finalize_response ?hs ?req (stamp_request_url req loc res) loc"
    using assms by (auto simp: onProxyResponse_def Let_def stamp_request_url_def)
  with finalize_response_PassThrough [of ?hs ?req "stamp_request_url req loc res" loc]
  show ?thesis
    by (auto simp: update_conv')
qed

lemma onProxyResponse_not_followed:
  assumes "location (corsAnywhereRequestState req) = Some loc"
    and "status = 307 \<or> status = 308"
    and "location_header hs \<noteq> []"
    and "parseURL (url_resolve env (href loc) (location_header hs)) = Some new_loc"
  shows "\<exists>hs' req'. onProxyResponse env status hs req res =
           PassThrough hs' req' (stamp_request_url req loc res) \<and>
           corsAnywhereRequestState req' = corsAnywhereRequestState req \<and>
           map_of hs' ''location'' =
             Some (Str (rewritten_location (proxyBaseUrl (corsAnywhereRequestState req))
                          (url_resolve env (href loc) (location_header hs)))) \<and>
           map_of hs' ''set-cookie'' = None \<and> map_of hs' ''set-cookie2'' = None"
proof -
  let ?st = "corsAnywhereRequestState req"
  let ?hs = "AList.update ''location''
               (Str (rewritten_location (proxyBaseUrl ?st)
                       (url_resolve env (href loc) (location_header hs)))) hs"
  have "onProxyResponse env status hs req res =
          finalize_response ?hs req (stamp_request_url req loc res) loc"
    using assms by (auto simp: onProxyResponse_def Let_def stamp_request_url_def)
  with finalize_response_PassThrough [of ?hs req "stamp_request_url req loc res" loc]
  show ?thesis
    by (auto simp: update_conv')
qed


lemma stamp_request_url_fields:
  "headersSent (stamp_request_url req loc res) = headersSent res"
  "writableEnded (stamp_request_url req loc res) = writableEnded res"
  by (simp_all add: stamp_request_url_def setHeader_def)

lemma outgoing_request_state:
  "corsAnywhereRequestState (outgoing_request req loc) = corsAnywhereRequestState req"
  by (simp add: outgoing_request_def)

lemma stamp_request_url_outgoing:
  "stamp_request_url (outgoing_request req loc) loc' res = stamp_request_url req loc' res"
  by (simp add: stamp_request_url_def outgoing_request_state)

lemma resolve_target_no_lookup:
  "dnsLookup (corsAnywhereRequestState req) = None \<Longrightarrow> \<exists>target. resolve_target req loc = Inr target"
  by (simp add: resolve_target_def Let_def)


lemma web_outgoing_sent: "headersSent res \<Longrightarrow> web_outgoing status hs res = res"
  by (simp add: web_outgoing_def)

lemma handler_forward_state:
  "handler_forward c r loc = Forward req \<Longrightarrow>
   corsAnywhereRequestState req =
     (corsAnywhereRequestState r)\<lparr>location := Some loc,
        proxyBaseUrl := proxyBaseUrl (corsAnywhereRequestState req)\<rparr>"
  by (auto simp: handler_forward_def Let_def)

lemma handler_policy_Forward:
  "handler_policy c ch r loc = Forward req \<Longrightarrow> handler_forward c r loc = Forward req"
  by (simp add: handler_policy_def Let_def split: if_splits)

lemma getHandler_Forward:
  "getHandler env c req0 = Forward req \<Longrightarrow>
   \<exists>loc. handler_policy c (cors_headers_for c req0) (request_seen c req0) loc = Forward req"
  unfolding getHandler_def cors_headers_for_def request_seen_def
  by (auto simp add: Let_def split_def split: if_splits option.splits)

lemma getHandler_Forward_state:
  assumes "getHandler env c req0 = Forward req"
  shows "redirectCount (corsAnywhereRequestState req) = None \<and>
         maxRedirects (corsAnywhereRequestState req) = cfg_maxRedirects c \<and>
         location (corsAnywhereRequestState req) \<noteq> None"
proof -
  from getHandler_Forward [OF assms] obtain loc where
    "handler_forward c (request_seen c req0) loc = Forward req"
    by (blast dest: handler_policy_Forward)
  from handler_forward_state [OF this] show ?thesis
    by (metis (no_types) request_seen_fields(4) new_request_state_def
          request_state.select_convs request_state.simps option.distinct(1))
qed

lemma getHandler_Forward_dnsLookup:
  assumes "getHandler env c req0 = Forward req"
  shows "dnsLookup (corsAnywhereRequestState req) = cfg_dnsLookup c"
proof -
  from getHandler_Forward [OF assms] obtain loc where
    "handler_forward c (request_seen c req0) loc = Forward req"
    by (blast dest: handler_policy_Forward)
  then show ?thesis
    by (auto simp: handler_forward_def Let_def request_seen_fields new_request_state_def)
qed

lemma handler_policy_admits:
  "origin_allowed c (request_origin (headers req)) \<Longrightarrow> target_allowed c loc \<Longrightarrow>
   call_checkRateLimit (checkRateLimit c) (request_origin (headers req)) = [] \<Longrightarrow>
   \<not> redirectSameOrigin c \<Longrightarrow>
   handler_policy c ch req loc = handler_forward c req loc"
  unfolding handler_policy_def origin_allowed_def target_allowed_def
  by (auto simp add: Let_def)

lemma request_seen_example:
  "request_seen default_config (plain_request ''GET'' ''/example.com/loop'' [(''host'', ''proxy.test'')]) =
   plain_request ''GET'' ''/example.com/loop'' [(''host'', ''proxy.test'')]"
  by (simp add: request_seen_def withCORS_def Let_def truthy_header_def plain_request_def)

lemma handler_admits_example:
  "getHandler scenario_env default_config
     (plain_request ''GET'' ''/example.com/loop'' [(''host'', ''proxy.test'')]) =
   Forward forwarded_request"
proof -
  let ?r = "plain_request ''GET'' ''/example.com/loop'' [(''host'', ''proxy.test'')]"
  let ?loc = "url_parse ''http://example.com/loop''"
  have reach: "reaches_origin_checks scenario_env default_config ?r ?loc"
    by code_simp
  have a: "origin_allowed default_config (request_origin (headers ?r))"
    "target_allowed default_config ?loc"
    "call_checkRateLimit (checkRateLimit default_config) (request_origin (headers ?r)) = []"
    "\<not> redirectSameOrigin default_config"
    by code_simp+
  have "getHandler scenario_env default_config ?r =
          handler_forward default_config ?r ?loc"
    using getHandler_policy [OF reach] handler_policy_admits [OF a]
    by (simp add: request_seen_example)
  also have "\<dots> = Forward forwarded_request"
    by (simp add: handler_forward_def Let_def forwarded_request_def plain_request_def
          forwarded_https_def header_text_def default_config_def default_options_def
          assign_all_def object_keys_def ordered_keys_def)
  finally show ?thesis .
qed

lemma example_target:
  "href (url_parse ''http://example.com/loop'') = ''http://example.com/loop''"
  "parseURL (url_resolve scenario_env (href (url_parse ''http://example.com/loop''))
      ''http://example.com/loop'') = Some (url_parse ''http://example.com/loop'')"
  "parseURL (url_resolve scenario_env (href (url_parse ''http://example.com/loop''))
      ''http://example.com/moved'') = Some (url_parse ''http://example.com/moved'')"
  "url_resolve scenario_env (href (url_parse ''http://example.com/loop''))
      ''http://example.com/loop'' = ''http://example.com/loop''"
  "url_resolve scenario_env (href (url_parse ''http://example.com/loop''))
      ''http://example.com/moved'' = ''http://example.com/moved''"
  by code_simp+

lemma forwarded_request_state:
  "location (corsAnywhereRequestState forwarded_request) = Some (url_parse ''http://example.com/loop'')"
  "proxyBaseUrl (corsAnywhereRequestState forwarded_request) = Some ''http://proxy.test''"
  "resolve_target forwarded_request (url_parse ''http://example.com/loop'') =
     Inr (href (url_parse ''http://example.com/loop''))"
  by (simp_all add: forwarded_request_def resolve_target_def new_request_state_def
        default_config_def default_options_def)

lemma number_text_examples: "number_text 1 = ''1''" "number_text 302 = ''302''"
  by code_simp+

text \<open>
  A followed hop: when the answer to an exchange is a 301, 302 or 303 within the limit
  and the client's response is still open, the request is re-issued with the response
  that the \<^verbatim>\<open>proxyRes\<close> listener has ended, and the redirect count is the next one.
  So the exchange that follows a followed hop finds the head of the client's response
  sent.
\<close>

lemma proxyRequest_followed_hop:
  assumes "location (corsAnywhereRequestState req) = Some loc"
    and "resolve_target req loc = Inr target"
    and "transport n (outbound_exchange (outgoing_request req loc) loc target) = ProxyRes status hs"
    and "status = 301 \<or> status = 302 \<or> status = 303"
    and "location_header hs \<noteq> []"
    and "parseURL (url_resolve env (href loc) (location_header hs)) = Some new_loc"
    and "next_redirect_count (redirectCount (corsAnywhereRequestState req))
           \<le> maxRedirects (corsAnywhereRequestState req)"
    and "\<not> headersSent res" "\<not> writableEnded res"
  shows "\<exists>req'. proxyRequest env transport n req res =
           proxyRequest env transport (Suc n) req'
             (res_end []
               (setHeader (''X-CORS-Redirect-'' @
                    number_text (next_redirect_count (redirectCount (corsAnywhereRequestState req))))
                  (Str (number_text (int status) @ '' '' @
                        url_resolve env (href loc) (location_header hs)))
                  (stamp_request_url req loc res))) \<and>
           corsAnywhereRequestState req' =
             (corsAnywhereRequestState req)
               \<lparr>redirectCount := Some (next_redirect_count (redirectCount (corsAnywhereRequestState req))),
                location := Some new_loc\<rparr>"
proof -
  let ?out = "outgoing_request req loc"
  let ?res1 = "setHeader (''X-CORS-Redirect-'' @
                    number_text (next_redirect_count (redirectCount (corsAnywhereRequestState req))))
                  (Str (number_text (int status) @ '' '' @
                        url_resolve env (href loc) (location_header hs)))
                  (stamp_request_url req loc res)"
  from onProxyResponse_follow [of ?out loc status hs env new_loc res] assms(1,4,5,6,7,8)
  obtain req' where
    m: "onProxyResponse env status hs ?out res = Redirected req' ?res1"
    and st: "corsAnywhereRequestState req' =
             (corsAnywhereRequestState req)
               \<lparr>redirectCount := Some (next_redirect_count (redirectCount (corsAnywhereRequestState req))),
                location := Some new_loc\<rparr>"
    by (auto simp: outgoing_request_state stamp_request_url_outgoing)
  have open_res: "\<not> writableEnded ?res1"
    using assms(9) by (simp add: setHeader_def stamp_request_url_fields)
  have "proxyRequest env transport n req res =
          proxyRequest env transport (Suc n) req' (res_end [] ?res1)"
    using assms(1,2,3) m open_res by (simp add: proxyRequest.simps [of env transport n req res])
  with st show ?thesis
    by blast
qed

text \<open>
  Claim C3, what the code does. When the answer to an exchange has status 307 or 308 and
  a \<^verbatim>\<open>Location\<close> header that resolves to a target, whatever the redirect count of
  the request, \<open>proxyRequest\<close> ends with that exchange: the request is not re-issued,
  the request's state (redirect count and target) is as before, and the response is left
  to be piped with \<^verbatim>\<open>Location\<close> rewritten to the proxy's base URL, a slash and the
  resolved location. The client receives the target's status and the rewritten
  \<^verbatim>\<open>Location\<close> only when the head of its response has not been sent, which is the
  case at redirect count 0. When the head has been sent, as it is after every followed
  301, 302 or 303 (the \<^verbatim>\<open>proxyRes\<close> listener has ended the response by then), the
  client's response is left as it was: neither the status nor the rewritten
  \<^verbatim>\<open>Location\<close> reaches the client.
\<close>

theorem redirect_307_308_not_followed:
  assumes "status = 307 \<or> status = 308"
    and "location (corsAnywhereRequestState req) = Some loc"
    and "resolve_target req loc = Inr target"
    and "transport n (outbound_exchange (outgoing_request req loc) loc target) = ProxyRes status hs"
    and "location_header hs \<noteq> []"
    and "parseURL (url_resolve env (href loc) (location_header hs)) = Some new_loc"
  shows "\<exists>hs' req'.
           proxyRequest env transport n req res =
             Piped (Suc n) status hs' req' (stamp_request_url req loc res) \<and>
           corsAnywhereRequestState req' = corsAnywhereRequestState req \<and>
           map_of hs' ''location'' =
             Some (Str (rewritten_location (proxyBaseUrl (corsAnywhereRequestState req))
                          (url_resolve env (href loc) (location_header hs)))) \<and>
           (\<not> headersSent res \<longrightarrow>
              (\<exists>r. client_response (proxyRequest env transport n req res) = Some r \<and>
                   statusCode r = status \<and>
                   map_of (res_headers r) ''location'' =
                     Some (Str (rewritten_location (proxyBaseUrl (corsAnywhereRequestState req))
                                  (url_resolve env (href loc) (location_header hs)))))) \<and>
           (headersSent res \<longrightarrow>
              client_response (proxyRequest env transport n req res) = Some res)"
proof -
  let ?new = "Str (rewritten_location (proxyBaseUrl (corsAnywhereRequestState req))
                     (url_resolve env (href loc) (location_header hs)))"
  from onProxyResponse_not_followed [of "outgoing_request req loc" loc status hs env new_loc res]
    assms(1,2,5,6)
  obtain hs' req' where
    m: "onProxyResponse env status hs (outgoing_request req loc) res =
          PassThrough hs' req' (stamp_request_url req loc res)"
    and st: "corsAnywhereRequestState req' = corsAnywhereRequestState req"
    and l: "map_of hs' ''location'' = Some ?new"
    by (auto simp: outgoing_request_state stamp_request_url_outgoing)
  have p: "proxyRequest env transport n req res =
             Piped (Suc n) status hs' req' (stamp_request_url req loc res)"
    using assms(2,3,4) m by (simp add: proxyRequest.simps [of env transport n req res])
  have fresh: "\<not> headersSent res \<Longrightarrow>
          client_response (proxyRequest env transport n req res) =
            Some (web_outgoing status hs' (stamp_request_url req loc res)) \<and>
          statusCode (web_outgoing status hs' (stamp_request_url req loc res)) = status \<and>
          map_of (res_headers (web_outgoing status hs' (stamp_request_url req loc res)))
            ''location'' = Some ?new"
    unfolding p by (simp add: client_response_def web_outgoing_def stamp_request_url_fields
          map_of_assign_all l)
  have sent: "headersSent res \<Longrightarrow>
          client_response (proxyRequest env transport n req res) = Some res"
    unfolding p by (simp add: client_response_def web_outgoing_def stamp_request_url_def)
  from p st l fresh sent show ?thesis
    by blast
qed

text \<open>
  The theorem at two targets. One answers the first exchange with a 307 and
  \<^verbatim>\<open>Location: http://example.com/moved\<close>: the client receives status 307 and the
  location \<^verbatim>\<open>http://proxy.test/http://example.com/moved\<close>. The other answers the
  first exchange with a 302 to itself and the second with the same 307: the 307 is not
  followed (two exchanges) and its \<^verbatim>\<open>Location\<close> is rewritten in the mediated
  headers, but the client has received status 200 with \<^verbatim>\<open>x-request-url\<close> and
  \<^verbatim>\<open>X-CORS-Redirect-1\<close>, an empty body and no \<^verbatim>\<open>Location\<close>.
\<close>

theorem redirect_307_308_not_followed_witness:
  "(\<exists>r. client_response
          (proxyRequest scenario_env temporary_redirect 0 forwarded_request new_response) = Some r \<and>
        statusCode r = 307 \<and>
        map_of (res_headers r) ''location'' =
          Some (Str ''http://proxy.test/http://example.com/moved'')) \<and>
   (\<exists>hs' req'.
      proxyRequest scenario_env redirect_then_temporary 0 forwarded_request new_response =
        Piped 2 307 hs' req'
          \<lparr> headersSent = True, writableEnded = True, statusCode = 200,
            res_headers = [(''x-request-url'', Str ''http://example.com/loop''),
                           (''X-CORS-Redirect-1'', Str ''302 http://example.com/loop'')],
            res_body = [] \<rparr> \<and>
      map_of hs' ''location'' = Some (Str ''http://proxy.test/http://example.com/moved'')) \<and>
   client_response
     (proxyRequest scenario_env redirect_then_temporary 0 forwarded_request new_response) =
     Some \<lparr> headersSent = True, writableEnded = True, statusCode = 200,
            res_headers = [(''x-request-url'', Str ''http://example.com/loop''),
                           (''X-CORS-Redirect-1'', Str ''302 http://example.com/loop'')],
            res_body = [] \<rparr>"
proof -
  let ?loc = "url_parse ''http://example.com/loop''"
  let ?moved = "[(''location'', Str ''http://example.com/moved'')]"
  let ?looped = "[(''location'', Str ''http://example.com/loop'')]"
  let ?ended = "\<lparr> headersSent = True, writableEnded = True, statusCode = 200,
            res_headers = [(''x-request-url'', Str ''http://example.com/loop''),
                           (''X-CORS-Redirect-1'', Str ''302 http://example.com/loop'')],
            res_body = [] \<rparr>"
  have lm: "location_header ?moved = ''http://example.com/moved''"
    and lf: "location_header ?looped = ''http://example.com/loop''"
    by (simp_all add: location_header_def)
  have nm: "location_header ?moved \<noteq> []" and nf: "location_header ?looped \<noteq> []"
    unfolding lm lf by simp_all
  have pm: "parseURL (url_resolve scenario_env (href ?loc) (location_header ?moved)) =
             Some (url_parse ''http://example.com/moved'')"
    unfolding lm by (rule example_target(3))
  have pf: "parseURL (url_resolve scenario_env (href ?loc) (location_header ?looped)) = Some ?loc"
    unfolding lf by (rule example_target(2))
  have r: "\<not> headersSent new_response" "\<not> writableEnded new_response"
    by (simp_all add: new_response_def)
  have t0: "temporary_redirect 0
             (outbound_exchange (outgoing_request forwarded_request ?loc) ?loc (href ?loc)) =
           ProxyRes 307 ?moved"
    by (simp add: temporary_redirect_def)
  from redirect_307_308_not_followed
      [where status = 307 and req = forwarded_request and loc = "?loc" and target = "href ?loc"
         and transport = temporary_redirect and n = 0 and hs = "?moved" and env = scenario_env
         and new_loc = "url_parse ''http://example.com/moved''" and res = new_response]
    forwarded_request_state(1,3) t0 nm pm r(1)
  have first: "\<exists>r. client_response
          (proxyRequest scenario_env temporary_redirect 0 forwarded_request new_response) = Some r \<and>
        statusCode r = 307 \<and>
        map_of (res_headers r) ''location'' =
          Some (Str ''http://proxy.test/http://example.com/moved'')"
    unfolding lm forwarded_request_state(2) example_target(5)
    by (auto simp: rewritten_location_def)
  have st0: "redirectCount (corsAnywhereRequestState forwarded_request) = None"
    "maxRedirects (corsAnywhereRequestState forwarded_request) = 5"
    "dnsLookup (corsAnywhereRequestState forwarded_request) = None"
    by (simp_all add: forwarded_request_def new_request_state_def default_config_def
          default_options_def)
  have t1: "redirect_then_temporary 0
             (outbound_exchange (outgoing_request forwarded_request ?loc) ?loc (href ?loc)) =
           ProxyRes 302 ?looped"
    by (simp add: redirect_then_temporary_def)
  have under: "next_redirect_count (redirectCount (corsAnywhereRequestState forwarded_request))
                 \<le> maxRedirects (corsAnywhereRequestState forwarded_request)"
    unfolding st0 by (simp add: next_redirect_count_def)
  have ended: "res_end []
               (setHeader (''X-CORS-Redirect-'' @
                    number_text (next_redirect_count (redirectCount (corsAnywhereRequestState forwarded_request))))
                  (Str (number_text (int 302) @ '' '' @
                        url_resolve scenario_env (href ?loc) (location_header ?looped)))
                  (stamp_request_url forwarded_request ?loc new_response)) = ?ended"
    unfolding st0 lf example_target(1)
    by (simp add: next_redirect_count_def number_text_examples stamp_request_url_def
          no_redirect_yet_def st0 res_end_def setHeader_def new_response_def scenario_env_def
          example_target(1))
  from proxyRequest_followed_hop
      [where status = 302 and req = forwarded_request and loc = "?loc" and target = "href ?loc"
         and transport = redirect_then_temporary and n = 0 and hs = "?looped" and env = scenario_env
         and new_loc = "?loc" and res = new_response]
    forwarded_request_state(1,3) t1 nf pf under r
  obtain req1 where
    step: "proxyRequest scenario_env redirect_then_temporary 0 forwarded_request new_response =
             proxyRequest scenario_env redirect_then_temporary (Suc 0) req1 ?ended"
    and st1: "corsAnywhereRequestState req1 =
                (corsAnywhereRequestState forwarded_request)
                  \<lparr>redirectCount := Some 1, location := Some ?loc\<rparr>"
    unfolding ended by (auto simp: st0 next_redirect_count_def)
  have loc1: "location (corsAnywhereRequestState req1) = Some ?loc"
    and base1: "proxyBaseUrl (corsAnywhereRequestState req1) = Some ''http://proxy.test''"
    and dns1: "dnsLookup (corsAnywhereRequestState req1) = None"
    by (simp_all add: st1 st0 forwarded_request_state(2))
  from resolve_target_no_lookup [OF dns1] obtain target where
    tg: "resolve_target req1 ?loc = Inr target" by blast
  have t2: "redirect_then_temporary (Suc 0)
             (outbound_exchange (outgoing_request req1 ?loc) ?loc target) = ProxyRes 307 ?moved"
    by (simp add: redirect_then_temporary_def)
  have sent: "headersSent ?ended"
    by simp
  have same: "stamp_request_url req1 ?loc ?ended = ?ended"
    by (simp add: stamp_request_url_def)
  from redirect_307_308_not_followed
      [where status = 307 and req = req1 and loc = "?loc" and target = target
         and transport = redirect_then_temporary and n = "Suc 0" and hs = "?moved"
         and env = scenario_env and new_loc = "url_parse ''http://example.com/moved''"
         and res = "?ended"]
    loc1 tg t2 nm pm sent
  have second: "(\<exists>hs' req'.
      proxyRequest scenario_env redirect_then_temporary (Suc 0) req1 ?ended =
        Piped 2 307 hs' req' ?ended \<and>
      map_of hs' ''location'' = Some (Str ''http://proxy.test/http://example.com/moved'')) \<and>
     client_response (proxyRequest scenario_env redirect_then_temporary (Suc 0) req1 ?ended) =
       Some ?ended"
    unfolding lm base1 example_target(5) same
    by (auto simp: rewritten_location_def)
  from first second show ?thesis
    unfolding step by blast
qed












lemma proxyRequest_exchanges:
  "exchanges (proxyRequest env transport n req res) \<le> n + hops_left req + 1"
proof (induction env transport n req res rule: proxyRequest.induct)
  case (1 env transport n req res)
  show ?case
  proof (cases "location (corsAnywhereRequestState req)")
    case None
    then show ?thesis
      by (simp add: proxyRequest.simps [of env transport n req res] exchanges_def)
  next
    case (Some loc)
    show ?thesis
    proof (cases "resolve_target req loc")
      case (Inl err)
      with Some show ?thesis
        by (simp add: proxyRequest.simps [of env transport n req res] exchanges_def)
    next
      case (Inr target)
      show ?thesis
      proof (cases "transport n (outbound_exchange (outgoing_request req loc) loc target)")
        case (ProxyError err)
        with Some Inr show ?thesis
          by (simp add: proxyRequest.simps [of env transport n req res] exchanges_def)
      next
        case (ProxyRes status hs)
        show ?thesis
        proof (cases "onProxyResponse env status hs (outgoing_request req loc) res")
          case (Redirected req' res')
          from onProxyResponse_Redirected_hops [OF Redirected]
          have less: "hops_left req' < hops_left req"
            by (simp add: hops_left_outgoing_request)
          from "1.IH" [OF Some Inr ProxyRes Redirected]
          have "exchanges (proxyRequest env transport (Suc n) req'
                  (if \<not> writableEnded res' then res_end [] res' else res'))
                \<le> Suc n + hops_left req' + 1" .
          with less Some Inr ProxyRes Redirected show ?thesis
            by (simp add: proxyRequest.simps [of env transport n req res])
        next
          case (PassThrough hs' req' res')
          with Some Inr ProxyRes show ?thesis
            by (simp add: proxyRequest.simps [of env transport n req res] exchanges_def)
        next
          case TypeError
          with Some Inr ProxyRes show ?thesis
            by (simp add: proxyRequest.simps [of env transport n req res] exchanges_def)
        qed
      qed
    qed
  qed
qed

lemma redirect_loop_tail:
  assumes loop: "\<forall>n out. \<exists>hs. transport n out = ProxyRes 302 hs \<and> location_header hs = L"
    and L: "L \<noteq> []" "parseURL (url_resolve env (href loc) L) = Some loc"
  shows "location (corsAnywhereRequestState req) = Some loc \<Longrightarrow>
         dnsLookup (corsAnywhereRequestState req) = None \<Longrightarrow>
         redirectCount (corsAnywhereRequestState req) = Some c \<Longrightarrow> 1 \<le> c \<Longrightarrow>
         c \<le> maxRedirects (corsAnywhereRequestState req) \<Longrightarrow>
         headersSent res \<Longrightarrow> writableEnded res \<Longrightarrow>
         \<exists>hs' req'.
           proxyRequest env transport n req res =
             Piped (n + nat (maxRedirects (corsAnywhereRequestState req) - c) + 1) 302 hs' req' res \<and>
           map_of hs' ''location'' =
             Some (Str (rewritten_location (proxyBaseUrl (corsAnywhereRequestState req))
                          (url_resolve env (href loc) L)))"
proof (induction "nat (maxRedirects (corsAnywhereRequestState req) - c)" arbitrary: n req c)
  case 0
  let ?out = "outgoing_request req loc"
  from resolve_target_no_lookup [OF "0.prems"(2)] obtain target where
    t: "resolve_target req loc = Inr target" by blast
  from loop obtain hs where
    hs: "transport n (outbound_exchange ?out loc target) = ProxyRes 302 hs" "location_header hs = L"
    by blast
  have over: "\<not> next_redirect_count (redirectCount (corsAnywhereRequestState ?out))
                 \<le> maxRedirects (corsAnywhereRequestState ?out)"
    using "0.hyps" "0.prems"(3,4,5)
    by (simp add: outgoing_request_state next_redirect_count_def)
  from onProxyResponse_limit [of ?out loc 302 hs env loc res, OF _ _ _ _ over]
    "0.prems"(1) hs(2) L
  obtain hs' req' where
    m: "onProxyResponse env 302 hs ?out res = PassThrough hs' req' (stamp_request_url ?out loc res)"
    and l: "map_of hs' ''location'' =
             Some (Str (rewritten_location (proxyBaseUrl (corsAnywhereRequestState req))
                          (url_resolve env (href loc) L)))"
    by (auto simp: outgoing_request_state)
  have s: "stamp_request_url ?out loc res = res"
    using "0.prems"(6) by (simp add: stamp_request_url_def)
  have "proxyRequest env transport n req res = Piped (Suc n) 302 hs' req' res"
    using "0.prems"(1) t hs(1) m s by (simp add: proxyRequest.simps [of env transport n req res])
  with l "0.hyps" show ?case
    by auto
next
  case (Suc k)
  let ?out = "outgoing_request req loc"
  let ?st = "corsAnywhereRequestState req"
  from resolve_target_no_lookup [OF Suc.prems(2)] obtain target where
    t: "resolve_target req loc = Inr target" by blast
  from loop obtain hs where
    hs: "transport n (outbound_exchange ?out loc target) = ProxyRes 302 hs" "location_header hs = L"
    by blast
  have nxt: "next_redirect_count (redirectCount (corsAnywhereRequestState ?out)) = c + 1"
    using Suc.prems(3,4) by (simp add: outgoing_request_state next_redirect_count_def)
  have under: "next_redirect_count (redirectCount (corsAnywhereRequestState ?out))
                 \<le> maxRedirects (corsAnywhereRequestState ?out)"
    using Suc.hyps(2) unfolding nxt by (simp add: outgoing_request_state)
  from onProxyResponse_follow [of ?out loc 302 hs env loc res, OF _ _ _ _ under]
    Suc.prems(1,6) hs(2) L
  obtain req' where
    m: "onProxyResponse env 302 hs ?out res = Redirected req' res"
    and st': "corsAnywhereRequestState req' = ?st\<lparr>redirectCount := Some (c + 1), location := Some loc\<rparr>"
    unfolding nxt by (auto simp: outgoing_request_state)
  have step: "proxyRequest env transport n req res = proxyRequest env transport (Suc n) req' res"
    using Suc.prems(1,7) t hs(1) m by (simp add: proxyRequest.simps [of env transport n req res])
  have k: "k = nat (maxRedirects (corsAnywhereRequestState req') - (c + 1))"
    using Suc.hyps(2) by (simp add: st')
  have le: "c + 1 \<le> maxRedirects ?st"
    using Suc.hyps(2) by arith
  from Suc.hyps(1) [OF k, of "Suc n"] Suc.prems le
  obtain hs' req'' where
    "proxyRequest env transport (Suc n) req' res =
       Piped (Suc n + nat (maxRedirects (corsAnywhereRequestState req') - (c + 1)) + 1) 302 hs' req'' res"
    and "map_of hs' ''location'' =
             Some (Str (rewritten_location (proxyBaseUrl (corsAnywhereRequestState req'))
                          (url_resolve env (href loc) L)))"
    by (auto simp: st')
  with step Suc.hyps(2) le show ?case
    by (auto simp: st' nat_diff_distrib')
qed

lemma redirect_loop_run:
  assumes loop: "\<forall>n out. \<exists>hs. transport n out = ProxyRes 302 hs \<and> location_header hs = L"
    and L: "L \<noteq> []" "parseURL (url_resolve env (href loc) L) = Some loc"
    and req: "location (corsAnywhereRequestState req) = Some loc"
      "dnsLookup (corsAnywhereRequestState req) = None"
      "redirectCount (corsAnywhereRequestState req) = None"
      "1 \<le> maxRedirects (corsAnywhereRequestState req)"
    and res: "\<not> headersSent res" "\<not> writableEnded res"
  shows "\<exists>hs' req'.
           proxyRequest env transport 0 req res =
             Piped (nat (maxRedirects (corsAnywhereRequestState req)) + 1) 302 hs' req'
               (res_end []
                 (setHeader ''X-CORS-Redirect-1'' (Str (''302 '' @ url_resolve env (href loc) L))
                   (setHeader ''x-request-url'' (Str (href loc)) res))) \<and>
           map_of hs' ''location'' =
             Some (Str (rewritten_location (proxyBaseUrl (corsAnywhereRequestState req))
                          (url_resolve env (href loc) L)))"
proof -
  let ?out = "outgoing_request req loc"
  let ?st = "corsAnywhereRequestState req"
  let ?res1 = "setHeader ''X-CORS-Redirect-1'' (Str (''302 '' @ url_resolve env (href loc) L))
                 (setHeader ''x-request-url'' (Str (href loc)) res)"
  from resolve_target_no_lookup [OF req(2)] obtain target where
    t: "resolve_target req loc = Inr target" by blast
  from loop obtain hs where
    hs: "transport 0 (outbound_exchange ?out loc target) = ProxyRes 302 hs" "location_header hs = L"
    by blast
  have nxt: "next_redirect_count (redirectCount (corsAnywhereRequestState ?out)) = 1"
    using req(3) by (simp add: outgoing_request_state next_redirect_count_def)
  have under: "next_redirect_count (redirectCount (corsAnywhereRequestState ?out))
                 \<le> maxRedirects (corsAnywhereRequestState ?out)"
    using req(4) unfolding nxt by (simp add: outgoing_request_state)
  have stamp: "stamp_request_url ?out loc res = setHeader ''x-request-url'' (Str (href loc)) res"
    using req(3) res(1) by (simp add: stamp_request_url_def outgoing_request_state no_redirect_yet_def)
  from onProxyResponse_follow [of ?out loc 302 hs env loc res, OF _ _ _ _ under]
    req(1) res(1) hs(2) L
  obtain req' where
    m: "onProxyResponse env 302 hs ?out res = Redirected req' ?res1"
    and st': "corsAnywhereRequestState req' = ?st\<lparr>redirectCount := Some 1, location := Some loc\<rparr>"
    unfolding nxt stamp by (auto simp: outgoing_request_state number_text_examples)
  have open_res: "\<not> writableEnded ?res1"
    using res(2) by (simp add: setHeader_def)
  have step: "proxyRequest env transport 0 req res =
                proxyRequest env transport (Suc 0) req' (res_end [] ?res1)"
    using req(1) t hs(1) m open_res by (simp add: proxyRequest.simps [of env transport 0 req res])
  from redirect_loop_tail [OF loop L, of req' 1 "res_end [] ?res1" "Suc 0"] req
  obtain hs' req'' where
    "proxyRequest env transport (Suc 0) req' (res_end [] ?res1) =
       Piped (Suc 0 + nat (maxRedirects (corsAnywhereRequestState req') - 1) + 1) 302 hs' req''
         (res_end [] ?res1)"
    and "map_of hs' ''location'' =
           Some (Str (rewritten_location (proxyBaseUrl (corsAnywhereRequestState req'))
                        (url_resolve env (href loc) L)))"
    by (auto simp: st' res_end_def)
  with step req(4) show ?thesis
    by (auto simp: st' nat_diff_distrib')
qed

text \<open>
  Claim C2, what the code does. For every admitted request and every transport, the
  number of outbound exchanges is at most \<open>maxRedirects + 1\<close>. When the target answers
  every exchange with a 302 whose \<^verbatim>\<open>Location\<close> resolves to the target itself (no DNS
  lookup configured, \<open>maxRedirects\<close> at least 1, a fresh response object), exactly
  \<open>maxRedirects\<close> hops are followed and the last answer is left to be piped with
  \<^verbatim>\<open>Location\<close> rewritten to the proxy's base URL, a slash and the resolved location.
  But the client's response is the one the \<^verbatim>\<open>proxyRes\<close> listener ended after the first
  followed hop: it carries \<^verbatim>\<open>x-request-url\<close> and \<^verbatim>\<open>X-CORS-Redirect-1\<close> and
  nothing of the later hops, since from the second hop on the head of the response has
  been sent, no further \<^verbatim>\<open>X-CORS-Redirect\<close> header is set, and http-proxy copies
  neither the status nor the rewritten \<^verbatim>\<open>Location\<close> to it.
\<close>

theorem redirect_following:
  assumes "getHandler env c req0 = Forward req"
  shows "exchanges (proxyRequest env transport 0 req res) \<le> nat (cfg_maxRedirects c) + 1 \<and>
         ((\<forall>n out. \<exists>hs. transport n out = ProxyRes 302 hs \<and> location_header hs = L) \<and>
          L \<noteq> [] \<and> location (corsAnywhereRequestState req) = Some loc \<and>
          parseURL (url_resolve env (href loc) L) = Some loc \<and>
          cfg_dnsLookup c = None \<and> 1 \<le> cfg_maxRedirects c \<and>
          \<not> headersSent res \<and> \<not> writableEnded res \<longrightarrow>
            exchanges (proxyRequest env transport 0 req res) = nat (cfg_maxRedirects c) + 1 \<and>
            client_response (proxyRequest env transport 0 req res) =
              Some (res_end []
                (setHeader ''X-CORS-Redirect-1'' (Str (''302 '' @ url_resolve env (href loc) L))
                  (setHeader ''x-request-url'' (Str (href loc)) res))) \<and>
            (\<exists>hs' req'.
               proxyRequest env transport 0 req res =
                 Piped (nat (cfg_maxRedirects c) + 1) 302 hs' req'
                   (res_end []
                     (setHeader ''X-CORS-Redirect-1'' (Str (''302 '' @ url_resolve env (href loc) L))
                       (setHeader ''x-request-url'' (Str (href loc)) res))) \<and>
               map_of hs' ''location'' =
                 Some (Str (rewritten_location (proxyBaseUrl (corsAnywhereRequestState req))
                              (url_resolve env (href loc) L)))))"
proof (intro conjI impI)
  note st = getHandler_Forward_state [OF assms] getHandler_Forward_dnsLookup [OF assms]
  show "exchanges (proxyRequest env transport 0 req res) \<le> nat (cfg_maxRedirects c) + 1"
    using proxyRequest_exchanges [of env transport 0 req res] st
    by (simp add: hops_left_def)
  let ?R = "res_end []
              (setHeader ''X-CORS-Redirect-1'' (Str (''302 '' @ url_resolve env (href loc) L))
                (setHeader ''x-request-url'' (Str (href loc)) res))"
  assume h: "(\<forall>n out. \<exists>hs. transport n out = ProxyRes 302 hs \<and> location_header hs = L) \<and>
          L \<noteq> [] \<and> location (corsAnywhereRequestState req) = Some loc \<and>
          parseURL (url_resolve env (href loc) L) = Some loc \<and>
          cfg_dnsLookup c = None \<and> 1 \<le> cfg_maxRedirects c \<and>
          \<not> headersSent res \<and> \<not> writableEnded res"
  from redirect_loop_run [of transport L env loc req res] h st
  obtain hs' req' where
    run: "proxyRequest env transport 0 req res = Piped (nat (cfg_maxRedirects c) + 1) 302 hs' req' ?R"
    and l: "map_of hs' ''location'' =
              Some (Str (rewritten_location (proxyBaseUrl (corsAnywhereRequestState req))
                           (url_resolve env (href loc) L)))"
    by auto
  show "exchanges (proxyRequest env transport 0 req res) = nat (cfg_maxRedirects c) + 1"
    unfolding run by (simp add: exchanges_def)
  show "client_response (proxyRequest env transport 0 req res) = Some ?R"
    unfolding run by (simp add: client_response_def web_outgoing_sent res_end_def)
  from run l show "\<exists>hs' req'.
       proxyRequest env transport 0 req res = Piped (nat (cfg_maxRedirects c) + 1) 302 hs' req' ?R \<and>
       map_of hs' ''location'' =
         Some (Str (rewritten_location (proxyBaseUrl (corsAnywhereRequestState req))
                      (url_resolve env (href loc) L)))"
    by blast
qed

text \<open>
  The theorem at the default \<open>maxRedirects\<close> of 5: six exchanges, and the client has
  received status 200 with the headers of the first hop only.
\<close>

theorem redirect_following_witness:
  "exchanges (proxyRequest scenario_env redirect_loop 0 forwarded_request new_response) = 6 \<and>
   client_response (proxyRequest scenario_env redirect_loop 0 forwarded_request new_response) =
     Some \<lparr> headersSent = True, writableEnded = True, statusCode = 200,
            res_headers = [(''x-request-url'', Str ''http://example.com/loop''),
                           (''X-CORS-Redirect-1'', Str ''302 http://example.com/loop'')],
            res_body = [] \<rparr>"
proof -
  let ?loc = "url_parse ''http://example.com/loop''"
  have loop: "\<forall>n out. \<exists>hs. redirect_loop n out = ProxyRes 302 hs \<and>
                location_header hs = ''http://example.com/loop''"
    by (simp add: redirect_loop_def location_header_def)
  have c: "cfg_dnsLookup default_config = None" "cfg_maxRedirects default_config = 5"
    by (simp_all add: default_config_def default_options_def)
  have r: "\<not> headersSent new_response" "\<not> writableEnded new_response"
    by (simp_all add: new_response_def)
  from redirect_following [OF handler_admits_example, of redirect_loop new_response
      "''http://example.com/loop''" ?loc]
    loop forwarded_request_state(1) example_target(2) c r
  have "exchanges (proxyRequest scenario_env redirect_loop 0 forwarded_request new_response) =
          nat (cfg_maxRedirects default_config) + 1 \<and>
        client_response (proxyRequest scenario_env redirect_loop 0 forwarded_request new_response) =
          Some (res_end []
            (setHeader ''X-CORS-Redirect-1''
               (Str (''302 '' @ url_resolve scenario_env (href ?loc) ''http://example.com/loop''))
              (setHeader ''x-request-url'' (Str (href ?loc)) new_response)))"
    by simp
  then show ?thesis
    unfolding example_target(1) c
    by (simp add: res_end_def setHeader_def new_response_def scenario_env_def)
qed

section \<open>Properties of the URL extractor\<close>

lemma parseURL_hostname_nonempty: "parseURL s = Some l \<Longrightarrow> hostname l \<noteq> []"
  by (auto simp: parseURL_def Let_def split: option.splits if_splits)

text \<open>
  Claim C4, as the code has it. The four spellings of \<^verbatim>\<open>example.com\<close> parse to
  targets with host name \<^verbatim>\<open>example.com\<close> that agree on protocol, host and port (the
  last two are equal as a whole), and \<^verbatim>\<open>http://:1/\<close> is rejected. The input
  \<^verbatim>\<open>http:/x\<close> is not rejected: the single slash after the scheme is doubled first,
  as for \<^verbatim>\<open>http:/example.com\<close>, and the result is the target with host name
  \<^verbatim>\<open>x\<close>.
\<close>

theorem parseURL_examples:
  "map_option hostname (parseURL ''example.com/a?b'') = Some ''example.com'' \<and>
   map_option hostname (parseURL ''//example.com/a'') = Some ''example.com'' \<and>
   map_option hostname (parseURL ''http://example.com'') = Some ''example.com'' \<and>
   map_option hostname (parseURL ''http:/example.com'') = Some ''example.com'' \<and>
   map_option (\<lambda>l. (protocol l, host l, port l)) (parseURL ''example.com/a?b'') =
     Some (''http:'', ''example.com'', None) \<and>
   map_option (\<lambda>l. (protocol l, host l, port l)) (parseURL ''//example.com/a'') =
     Some (''http:'', ''example.com'', None) \<and>
   map_option (\<lambda>l. (protocol l, host l, port l)) (parseURL ''http://example.com'') =
     Some (''http:'', ''example.com'', None) \<and>
   parseURL ''http:/example.com'' = parseURL ''http://example.com'' \<and>
   map_option path (parseURL ''example.com/a?b'') = Some ''/a?b'' \<and>
   map_option path (parseURL ''//example.com/a'') = Some ''/a'' \<and>
   map_option path (parseURL ''http://example.com'') = Some ''/'' \<and>
   parseURL ''http://:1/'' = None \<and>
   map_option hostname (parseURL ''http:/x'') = Some ''x'' \<and>
   parseURL ''http:/x'' = parseURL ''http://x''"
  by code_simp

text \<open>
  Claim C4 as stated fails at \<^verbatim>\<open>http:/x\<close>: the extractor does not return
  \<^verbatim>\<open>null\<close> for it.
\<close>

theorem parseURL_single_slash_x_counterexample: "parseURL ''http:/x'' \<noteq> None"
  by code_simp

end
